theory Spec2Isabelle
  imports Complex_Main "HOL-Library.Sublist"
begin

section \<open>Numbers of the scripting language\<close>

text \<open>
  The extension is written in JavaScript, whose numbers are the IEEE 754 doubles: the
  finite ones, NaN and the two infinities. A finite double is represented by the real
  number it denotes. \<open>dbl x\<close> is the double nearest to \<open>x\<close>, ties to the even
  significand; arithmetic on finite doubles is exact arithmetic followed by this
  rounding, and a result of magnitude \<open>2^1024 - 2^970\<close> or more is an infinity.
\<close>

datatype jsnum = Finite real | NaN | PosInf | NegInf

definition rne :: "real \<Rightarrow> int" where
  \<comment> \<open>the nearest integer, a tie to the even one\<close>
  "rne x = (let f = \<lfloor>x\<rfloor>; d = x - of_int f
            in if d < 1 / 2 then f else if 1 / 2 < d then f + 1
               else if even f then f else f + 1)"

text \<open>
  The binary exponent of a positive number: the \<open>e\<close> with \<open>2^e \<le> x < 2^(e+1)\<close>,
  found by halving or doubling. The fuel covers every exponent of a double and of a
  sum of two doubles.
\<close>

fun binade_fuel :: "nat \<Rightarrow> real \<Rightarrow> int" where
  "binade_fuel 0 x = 0"
| "binade_fuel (Suc n) x =
     (if 2 \<le> x then binade_fuel n (x / 2) + 1
      else if x < 1 then binade_fuel n (2 * x) - 1
      else 0)"

definition binade :: "real \<Rightarrow> int" where
  "binade x = binade_fuel 2200 \<bar>x\<bar>"

definition scale2 :: "int \<Rightarrow> real" where
  \<comment> \<open>\<open>2^k\<close> for an integer \<open>k\<close>\<close>
  "scale2 k = (if 0 \<le> k then 2 ^ nat k else 1 / 2 ^ nat (- k))"

definition dbl :: "real \<Rightarrow> real" where
  \<comment> \<open>53 significant bits; below \<open>2^-1022\<close> the spacing stays \<open>2^-1074\<close>\<close>
  "dbl x = (if x = 0 then 0
            else (let e = max (binade x) (- 1022)
                  in of_int (rne (x * scale2 (52 - e))) * scale2 (e - 52)))"

definition round_double :: "real \<Rightarrow> jsnum" where
  "round_double x =
     (if 2 ^ 1024 - 2 ^ 970 \<le> \<bar>x\<bar> then (if 0 < x then PosInf else NegInf)
      else Finite (dbl x))"

definition dadd :: "real \<Rightarrow> real \<Rightarrow> real" where
  \<comment> \<open>\<^verbatim>\<open>x + y\<close> on finite doubles whose sum does not overflow\<close>
  "dadd x y = dbl (x + y)"

fun jadd :: "jsnum \<Rightarrow> jsnum \<Rightarrow> jsnum" where
  \<comment> \<open>\<^verbatim>\<open>x + y\<close> on numbers\<close>
  "jadd (Finite x) (Finite y) = round_double (x + y)"
| "jadd NaN y = NaN"
| "jadd x NaN = NaN"
| "jadd PosInf NegInf = NaN"
| "jadd NegInf PosInf = NaN"
| "jadd PosInf y = PosInf"
| "jadd NegInf y = NegInf"
| "jadd x PosInf = PosInf"
| "jadd x NegInf = NegInf"

fun jneg :: "jsnum \<Rightarrow> jsnum" where
  "jneg (Finite x) = Finite (- x)"
| "jneg NaN = NaN"
| "jneg PosInf = NegInf"
| "jneg NegInf = PosInf"

definition jsub :: "jsnum \<Rightarrow> jsnum \<Rightarrow> jsnum" where
  \<comment> \<open>\<^verbatim>\<open>x - y\<close> on numbers\<close>
  "jsub x y = jadd x (jneg y)"

fun jgt :: "jsnum \<Rightarrow> real \<Rightarrow> bool" where
  \<comment> \<open>\<^verbatim>\<open>x > k\<close> for a number literal \<open>k\<close>; a comparison with NaN is false\<close>
  "jgt (Finite x) k = (x > k)"
| "jgt NaN k = False"
| "jgt PosInf k = True"
| "jgt NegInf k = False"

section \<open>Values of the scripting language\<close>

text \<open>
  Step results are the objects that \<^verbatim>\<open>JSON.parse\<close> returns or that the fallback
  generator writes as object literals, so they are modelled as JSON values, with every
  number of the language as a number. \<open>JNum x\<close> is the finite number \<open>x\<close>. A
  property that is missing reads as \<^verbatim>\<open>undefined\<close>, which is \<open>None\<close> of
  \<open>json option\<close>. Strings are character lists, one character per code unit.
\<close>

datatype json =
    JNull
  | JBool bool
  | JNumber jsnum
  | JStr string
  | JArr "json list"
  | JObj "(string \<times> json) list"

abbreviation JNum :: "real \<Rightarrow> json" where
  "JNum x \<equiv> JNumber (Finite x)"

type_synonym jsval = "json option"

datatype error =
    TypeError
  | UnknownTemplate string

text \<open>Truthiness, as \<^verbatim>\<open>if (v)\<close>, \<^verbatim>\<open>!v\<close>, \<^verbatim>\<open>a && b\<close> and \<^verbatim>\<open>a || b\<close> test it.\<close>

fun truthy :: "jsval \<Rightarrow> bool" where
  "truthy None = False"
| "truthy (Some JNull) = False"
| "truthy (Some (JBool b)) = b"
| "truthy (Some (JNumber (Finite x))) = (x \<noteq> 0)"
| "truthy (Some (JNumber NaN)) = False"
| "truthy (Some (JNumber PosInf)) = True"
| "truthy (Some (JNumber NegInf)) = True"
| "truthy (Some (JStr s)) = (s \<noteq> [])"
| "truthy (Some (JArr xs)) = True"
| "truthy (Some (JObj kvs)) = True"

text \<open>
  \<^verbatim>\<open>v.k\<close> on a value that is not \<^verbatim>\<open>null\<close>: an own property of an object, the
  \<^verbatim>\<open>length\<close> of a string or an array, \<^verbatim>\<open>undefined\<close> otherwise (none of the keys
  read below is a method of a prototype).
\<close>

fun jprop :: "json \<Rightarrow> string \<Rightarrow> jsval" where
  "jprop (JObj kvs) k = map_of kvs k"
| "jprop (JStr s) k = (if k = ''length'' then Some (JNum (real (length s))) else None)"
| "jprop (JArr xs) k = (if k = ''length'' then Some (JNum (real (length xs))) else None)"
| "jprop v k = None"

text \<open>\<^verbatim>\<open>v.k\<close> in general: reading a property of \<^verbatim>\<open>null\<close> throws a TypeError.\<close>

definition getp :: "json \<Rightarrow> string \<Rightarrow> error + jsval" where
  "getp v k = (case v of JNull \<Rightarrow> Inl TypeError | _ \<Rightarrow> Inr (jprop v k))"

text \<open>\<^verbatim>\<open>v?.k\<close>: \<^verbatim>\<open>undefined\<close> when \<open>v\<close> is \<^verbatim>\<open>undefined\<close> or \<^verbatim>\<open>null\<close>.\<close>

definition optp :: "jsval \<Rightarrow> string \<Rightarrow> jsval" where
  "optp v k = (case v of None \<Rightarrow> None | Some JNull \<Rightarrow> None | Some j \<Rightarrow> jprop j k)"

definition isNumber :: "jsval \<Rightarrow> bool" where
  \<comment> \<open>\<^verbatim>\<open>typeof v === 'number'\<close>\<close>
  "isNumber v = (case v of Some (JNumber n) \<Rightarrow> True | _ \<Rightarrow> False)"

definition isArray :: "jsval \<Rightarrow> bool" where
  \<comment> \<open>\<^verbatim>\<open>Array.isArray(v)\<close>\<close>
  "isArray v = (case v of Some (JArr xs) \<Rightarrow> True | _ \<Rightarrow> False)"

definition includes_str :: "string list \<Rightarrow> jsval \<Rightarrow> bool" where
  \<comment> \<open>\<^verbatim>\<open>[s1, ..., sn].includes(v)\<close> on an array of strings\<close>
  "includes_str ss v = (case v of Some (JStr s) \<Rightarrow> s \<in> set ss | _ \<Rightarrow> False)"

text \<open>
  Numeric operators convert their operands. The conversion of \<^verbatim>\<open>undefined\<close>,
  \<^verbatim>\<open>null\<close>, booleans and numbers is written out. The conversion of a string, an
  array or an object to a number is a function of the language that is not written out
  here: it is the parameter \<open>cv\<close>, applied to the one operand, or to the two operands
  of a \<^verbatim>\<open>+\<close> whose result is their string concatenation. Every property below
  holds for each \<open>cv\<close>.
\<close>

type_synonym coercion = "jsval list \<Rightarrow> jsnum"

definition js_numeric :: "jsval \<Rightarrow> bool" where
  "js_numeric v = (case v of None \<Rightarrow> True | Some JNull \<Rightarrow> True | Some (JBool b) \<Rightarrow> True
                          | Some (JNumber n) \<Rightarrow> True | _ \<Rightarrow> False)"

definition toNumber :: "coercion \<Rightarrow> jsval \<Rightarrow> jsnum" where
  "toNumber cv v = (case v of None \<Rightarrow> NaN | Some JNull \<Rightarrow> Finite 0
                      | Some (JBool b) \<Rightarrow> Finite (if b then 1 else 0)
                      | Some (JNumber n) \<Rightarrow> n | _ \<Rightarrow> cv [v])"

definition js_gt :: "coercion \<Rightarrow> jsval \<Rightarrow> real \<Rightarrow> bool" where
  \<comment> \<open>\<^verbatim>\<open>v > k\<close> for a number literal \<open>k\<close>\<close>
  "js_gt cv v k = jgt (toNumber cv v) k"

definition js_sub :: "coercion \<Rightarrow> jsval \<Rightarrow> jsval \<Rightarrow> jsnum" where
  \<comment> \<open>\<^verbatim>\<open>a - b\<close>: always a number\<close>
  "js_sub cv a b = jsub (toNumber cv a) (toNumber cv b)"

definition js_add_gt :: "coercion \<Rightarrow> jsval \<Rightarrow> jsval \<Rightarrow> real \<Rightarrow> bool" where
  \<comment> \<open>\<^verbatim>\<open>a + b > k\<close>\<close>
  "js_add_gt cv a b k =
     (if js_numeric a \<and> js_numeric b
      then jgt (jadd (toNumber cv a) (toNumber cv b)) k
      else jgt (cv [a, b]) k)"

definition orZero :: "jsval \<Rightarrow> json" where
  \<comment> \<open>\<^verbatim>\<open>v || 0\<close>: the value itself when it is truthy\<close>
  "orZero v = (case v of None \<Rightarrow> JNum 0 | Some j \<Rightarrow> (if truthy v then j else JNum 0))"

text \<open>
  What \<^verbatim>\<open>JSON.parse\<close> returns for the text that \<^verbatim>\<open>JSON.stringify\<close> writes for a
  value: the value itself, with \<^verbatim>\<open>null\<close> for every number that is not finite.
\<close>

fun roundtrip :: "json \<Rightarrow> json" where
  "roundtrip (JNumber (Finite x)) = JNumber (Finite x)"
| "roundtrip (JNumber n) = JNull"
| "roundtrip (JArr xs) = JArr (map roundtrip xs)"
| "roundtrip (JObj kvs) = JObj (map (\<lambda>kv. (fst kv, roundtrip (snd kv))) kvs)"
| "roundtrip v = v"

section \<open>Prompt templates: validation and fallback (prompt-templates.js)\<close>

text \<open>
  \<^verbatim>\<open>validateResponse(templateName, response)\<close>. \<^verbatim>\<open>JSON.parse\<close> is the parameter
  \<open>parse\<close>; \<open>None\<close> is its SyntaxError. The whole body is inside \<^verbatim>\<open>try\<close>, and the
  handler returns \<^verbatim>\<open>false\<close>. The result is the truthiness of what the function returns,
  which is all its callers test.
\<close>

definition validateParsed :: "string \<Rightarrow> json \<Rightarrow> error + bool" where
  "validateParsed templateName parsed =
     (if templateName = ''SUMMARIZER'' then
        (case getp parsed ''summary'' of Inl e \<Rightarrow> Inl e
         | Inr s \<Rightarrow> Inr (truthy s \<and> isArray (jprop parsed ''categories'')))
      else if templateName = ''COOKIE_ANALYZER'' then
        (case getp parsed ''first_party'' of Inl e \<Rightarrow> Inl e
         | Inr fp \<Rightarrow> Inr (isNumber fp \<and> isNumber (jprop parsed ''third_party'')))
      else if templateName = ''DELETION_ANALYZER'' then
        (case getp parsed ''can_delete'' of Inl e \<Rightarrow> Inl e
         | Inr cd \<Rightarrow> Inr (includes_str [''yes'', ''no'', ''partial'', ''unknown''] cd))
      else if templateName = ''RISK_SCORER'' then
        (case getp parsed ''risk_score'' of Inl e \<Rightarrow> Inl e
         | Inr rs \<Rightarrow> Inr (isNumber rs
                        \<and> includes_str [''SAFE'', ''CAUTION'', ''UNSAFE''] (jprop parsed ''verdict'')
                        \<and> isArray (jprop parsed ''reasons'')))
      else Inr True)"

definition validateResponse :: "(string \<Rightarrow> json option) \<Rightarrow> string \<Rightarrow> string \<Rightarrow> bool" where
  "validateResponse parse templateName response =
     (case parse response of
        None \<Rightarrow> False
      | Some parsed \<Rightarrow> (case validateParsed templateName parsed of Inl e \<Rightarrow> False | Inr b \<Rightarrow> b))"

text \<open>
  The objects that carry step results: the \<^verbatim>\<open>inputData\<close> of
  \<^verbatim>\<open>generateFallbackResponse\<close> (\<^verbatim>\<open>{ cookieData }\<close> for the cookie step, the
  combined data \<^verbatim>\<open>{ summarizer, cookies, deletion, ... }\<close> for the risk step) and the
  \<^verbatim>\<open>data\<close> of \<^verbatim>\<open>combineAnalysisResults\<close>, which has \<^verbatim>\<open>risk\<close> as well. A property
  that an object literal does not set is \<open>None\<close>, and every property is any value
  of the language. An \<^verbatim>\<open>inputData\<close> that is itself \<^verbatim>\<open>undefined\<close> or \<^verbatim>\<open>null\<close>
  is \<open>None\<close> of \<open>step_data option\<close>.
\<close>

record step_data =
  cookieData :: jsval
  summarizer :: jsval
  cookies :: jsval
  deletion :: jsval
  risk :: jsval

definition generateFallbackResponse ::
  "coercion \<Rightarrow> string \<Rightarrow> step_data option \<Rightarrow> error + json" where
  "generateFallbackResponse cv templateName inputData =
     (if templateName = ''SUMMARIZER'' then
        Inr (JObj [(''summary'', JStr ''Unable to analyze privacy policy automatically. Manual review recommended.''),
                   (''categories'', JArr [JStr ''unknown'']),
                   (''retention_clauses'', JArr [JStr ''not specified''])])
      else if templateName = ''COOKIE_ANALYZER'' then
        (case inputData of None \<Rightarrow> Inl TypeError
         | Some d \<Rightarrow>
             (let cookieCount' = orZero (optp (cookieData d) ''cookieCount'');
                  thirdParty = orZero (optp (cookieData d) ''thirdPartyCookies'')
              in Inr (JObj [(''first_party'', JNumber (js_sub cv (Some cookieCount') (Some thirdParty))),
                            (''third_party'', thirdParty),
                            (''tracking'', JStr (if js_gt cv (Some thirdParty) 0
                                                then ''likely'' else ''unknown'')),
                            (''categories'', JObj [])])))
      else if templateName = ''DELETION_ANALYZER'' then
        Inr (JObj [(''can_delete'', JStr ''unknown''),
                   (''instructions'', JStr ''Contact site support for data deletion requests''),
                   (''links'', JArr []),
                   (''contacts'', JArr [])])
      else if templateName = ''RISK_SCORER'' then
        (case inputData of None \<Rightarrow> Inl TypeError
         | Some d \<Rightarrow>
             (let riskScore0 = (50 :: real);
                  riskScore1 = (if js_gt cv (optp (cookies d) ''third_party'') 5
                                then riskScore0 + 20 else riskScore0);
                  riskScore = (if optp (deletion d) ''can_delete'' = Some (JStr ''no'')
                               then riskScore1 + 15 else riskScore1);
                  verdict = (if riskScore < 30 then ''SAFE''
                             else if riskScore < 70 then ''CAUTION'' else ''UNSAFE'')
              in Inr (JObj [(''risk_score'', JNum (min riskScore 100)),
                            (''verdict'', JStr verdict),
                            (''reasons'', JArr [JStr ''AI analysis unavailable'', JStr ''Manual review recommended'']),
                            (''actions'', JArr [JStr ''Review privacy policy manually'',
                                                JStr ''Contact site for data practices''])])))
      else Inr (JObj [(''error'', JStr ''Unknown template for fallback'')]))"

text \<open>
  \<^verbatim>\<open>PROMPT_TEMPLATES[templateName]\<close> is a property read on an object literal with
  four own keys, so a name that is not an own key still finds what the object inherits
  from \<^verbatim>\<open>Object.prototype\<close>: eleven functions and the accessor \<^verbatim>\<open>__proto__\<close>, all
  truthy. \<open>Inherited\<close> carries the \<^verbatim>\<open>name\<close> property of the value found. The
  template texts are multi-line literals; \<open>tpl\<close> maps each own key to its text.
\<close>

record prompt_template =
  tname :: string
  ttemplate :: string
  maxTokens :: nat

datatype looked_up =
    Own prompt_template
  | Inherited "string option"
  | Absent

definition PROMPT_TEMPLATES :: "(string \<Rightarrow> string) \<Rightarrow> string \<Rightarrow> looked_up" where
  "PROMPT_TEMPLATES tpl k =
     (if k = ''SUMMARIZER'' then
        Own \<lparr>tname = ''privacy_summarizer'', ttemplate = tpl k, maxTokens = 500\<rparr>
      else if k = ''COOKIE_ANALYZER'' then
        Own \<lparr>tname = ''cookie_analyzer'', ttemplate = tpl k, maxTokens = 400\<rparr>
      else if k = ''DELETION_ANALYZER'' then
        Own \<lparr>tname = ''deletion_analyzer'', ttemplate = tpl k, maxTokens = 300\<rparr>
      else if k = ''RISK_SCORER'' then
        Own \<lparr>tname = ''risk_scorer'', ttemplate = tpl k, maxTokens = 400\<rparr>
      else if k = ''constructor'' then Inherited (Some ''Object'')
      else if k \<in> set [''hasOwnProperty'', ''isPrototypeOf'', ''propertyIsEnumerable'',
                        ''toLocaleString'', ''toString'', ''valueOf'',
                        ''__defineGetter__'', ''__defineSetter__'',
                        ''__lookupGetter__'', ''__lookupSetter__'']
      then Inherited (Some k)
      else if k = ''__proto__'' then Inherited None
      else Absent)"

record formatted =
  prompt :: "string option"
  fmaxTokens :: nat
  fname :: "string option"

text \<open>
  \<^verbatim>\<open>formatPrompt(templateName, variables)\<close>. \<open>render\<close> is the text of a value
  (\<^verbatim>\<open>JSON.stringify(value, null, 2)\<close> or \<^verbatim>\<open>String(value)\<close>) and \<open>replaceAll t k r\<close> is
  \<^verbatim>\<open>t.replace(new RegExp('{k}', 'g'), r)\<close>, which can throw for a key that is no regular
  expression. A value inherited from the prototype has no \<^verbatim>\<open>template\<close>, so the prompt
  starts as \<^verbatim>\<open>undefined\<close> and the first substitution throws a TypeError.
\<close>

fun substitute ::
  "(jsval \<Rightarrow> string) \<Rightarrow> (string \<Rightarrow> string \<Rightarrow> string \<Rightarrow> error + string)
     \<Rightarrow> (string \<times> jsval) list \<Rightarrow> string option \<Rightarrow> error + string option" where
  "substitute render replaceAll [] p = Inr p"
| "substitute render replaceAll ((key, v) # vs) p =
     (case p of
        None \<Rightarrow> Inl TypeError
      | Some t \<Rightarrow> (case replaceAll t key (render v) of
                    Inl e \<Rightarrow> Inl e
                  | Inr t' \<Rightarrow> substitute render replaceAll vs (Some t')))"

definition formatPrompt ::
  "(string \<Rightarrow> string) \<Rightarrow> (jsval \<Rightarrow> string) \<Rightarrow> (string \<Rightarrow> string \<Rightarrow> string \<Rightarrow> error + string)
     \<Rightarrow> string \<Rightarrow> (string \<times> jsval) list \<Rightarrow> error + formatted" where
  "formatPrompt tpl render replaceAll templateName variables =
     (case PROMPT_TEMPLATES tpl templateName of
        Absent \<Rightarrow> Inl (UnknownTemplate templateName)
      | Own t \<Rightarrow>
          (case substitute render replaceAll variables (Some (ttemplate t)) of
             Inl e \<Rightarrow> Inl e
           | Inr p \<Rightarrow> Inr \<lparr>prompt = p,
                          fmaxTokens = (if maxTokens t \<noteq> 0 then maxTokens t else 500),
                          fname = Some (tname t)\<rparr>)
      | Inherited n \<Rightarrow>
          (case substitute render replaceAll variables None of
             Inl e \<Rightarrow> Inl e
           | Inr p \<Rightarrow> Inr \<lparr>prompt = p, fmaxTokens = 500, fname = n\<rparr>))"

section \<open>The analysis pipeline (ai-client.js)\<close>

text \<open>
  The scraped input of one analysis. \<^verbatim>\<open>cookies\<close> of the source is \<open>cookies'\<close> here
  (the step data has a \<^verbatim>\<open>cookies\<close> too). The replies of the AI calls are parameters: a
  call returns a response string or throws (\<open>None\<close>).
\<close>

text \<open>
  The cookie data of the scraper (\<^verbatim>\<open>extractCookieData\<close>): two counts, each a finite
  number or missing. \<open>cookieDataValue\<close> is that object as a value.
\<close>

record cookie_data =
  cookieCount :: "real option"
  thirdPartyCookies :: "real option"

definition or0 :: "real option \<Rightarrow> real" where
  \<comment> \<open>\<^verbatim>\<open>v || 0\<close> on a number or \<^verbatim>\<open>undefined\<close>\<close>
  "or0 v = (case v of None \<Rightarrow> 0 | Some n \<Rightarrow> (if n \<noteq> 0 then n else 0))"

definition cookieDataValue :: "cookie_data \<Rightarrow> json" where
  "cookieDataValue c =
     JObj ((case cookieCount c of None \<Rightarrow> [] | Some n \<Rightarrow> [(''cookieCount'', JNum n)])
           @ (case thirdPartyCookies c of None \<Rightarrow> [] | Some n \<Rightarrow> [(''thirdPartyCookies'', JNum n)]))"

record banner_data =
  hasBanner :: bool
  hasRejectButton :: bool

record analysis_data =
  privacyPolicyText :: "string option"
  privacyPolicyLinks :: "string list option"
  cookies' :: "cookie_data option"
  cookieBannerData :: "banner_data option"

record ai_replies =
  summarizerReply :: "string option"
  cookieReply :: "string option"
  deletionReply :: "string option"
  riskReply :: "string option"

text \<open>
  The report, with the properties read below: \<^verbatim>\<open>risk_score\<close>, \<^verbatim>\<open>verdict\<close>,
  \<^verbatim>\<open>reasons\<close>, \<^verbatim>\<open>actions\<close> and \<^verbatim>\<open>confidence\<close>.
\<close>

record report =
  risk_score :: jsval
  verdict :: jsval
  reasons :: jsval
  actions :: jsval
  confidence :: real

definition noData :: step_data where
  "noData = \<lparr>cookieData = None, summarizer = None, cookies = None, deletion = None, risk = None\<rparr>"

text \<open>
  Each step: ask the AI, keep the parsed reply when \<^verbatim>\<open>validateResponse\<close> accepts it,
  and take the fallback when the call throws or the reply is refused.
  (\<^verbatim>\<open>formatPrompt\<close> is called with an own key and fixed variable names; its prompt
  only feeds the call.)
\<close>

definition useReply ::
  "(string \<Rightarrow> json option) \<Rightarrow> string \<Rightarrow> string option \<Rightarrow> (error + json) \<Rightarrow> error + json" where
  "useReply parse templateName reply fallback =
     (case reply of
        None \<Rightarrow> fallback
      | Some response \<Rightarrow>
          (if validateResponse parse templateName response
           then (case parse response of None \<Rightarrow> fallback | Some parsed \<Rightarrow> Inr parsed)
           else fallback))"

definition runSummarizer ::
  "(string \<Rightarrow> json option) \<Rightarrow> coercion \<Rightarrow> string option \<Rightarrow> string option \<Rightarrow> error + json" where
  "runSummarizer parse cv reply policyText =
     (if (case policyText of None \<Rightarrow> True | Some t \<Rightarrow> t = [] \<or> length t < 100)
      then generateFallbackResponse cv ''SUMMARIZER'' (Some noData)
      else useReply parse ''SUMMARIZER'' reply
             (generateFallbackResponse cv ''SUMMARIZER'' (Some noData)))"

definition runCookieAnalysis ::
  "(string \<Rightarrow> json option) \<Rightarrow> coercion \<Rightarrow> string option \<Rightarrow> cookie_data option \<Rightarrow> error + json" where
  "runCookieAnalysis parse cv reply cd =
     useReply parse ''COOKIE_ANALYZER'' reply
       (generateFallbackResponse cv ''COOKIE_ANALYZER''
          (Some (noData\<lparr>cookieData := map_option cookieDataValue cd\<rparr>)))"

definition runDeletionAnalysis ::
  "(string \<Rightarrow> json option) \<Rightarrow> coercion \<Rightarrow> string option \<Rightarrow> string option \<Rightarrow> error + json" where
  "runDeletionAnalysis parse cv reply policyText =
     useReply parse ''DELETION_ANALYZER'' reply
       (generateFallbackResponse cv ''DELETION_ANALYZER'' (Some noData))"

definition runRiskAssessment ::
  "(string \<Rightarrow> json option) \<Rightarrow> coercion \<Rightarrow> string option \<Rightarrow> step_data \<Rightarrow> error + json" where
  "runRiskAssessment parse cv reply combinedData =
     useReply parse ''RISK_SCORER'' reply
       (generateFallbackResponse cv ''RISK_SCORER'' (Some combinedData))"

text \<open>
  \<^verbatim>\<open>combineAnalysisResults(data)\<close>. Building the cookie summary and the data-use list
  can throw a TypeError, which \<^verbatim>\<open>analyzePrivacyPolicy\<close> catches; of what they build
  only that is kept here. \<^verbatim>\<open>Object.entries\<close> lists the own properties of an object, the
  indexed elements of an array and the characters of a string.
\<close>

datatype entry_key = Key string | Index nat

fun entries :: "json \<Rightarrow> (entry_key \<times> json) list" where
  "entries (JObj kvs) = map (\<lambda>(k, v). (Key k, v)) kvs"
| "entries (JArr xs) = map (\<lambda>(i, x). (Index i, x)) (zip [0..<length xs] xs)"
| "entries (JStr s) = map (\<lambda>(i, c). (Index i, JStr [c])) (zip [0..<length s] s)"
| "entries v = []"

fun mapE :: "('a \<Rightarrow> error + 'b) \<Rightarrow> 'a list \<Rightarrow> error + 'b list" where
  "mapE f [] = Inr []"
| "mapE f (x # xs) =
     (case f x of
        Inl e \<Rightarrow> Inl e
      | Inr y \<Rightarrow> (case mapE f xs of Inl e \<Rightarrow> Inl e | Inr ys \<Rightarrow> Inr (y # ys)))"

definition exampleOf :: "json \<Rightarrow> error + (jsval \<times> jsval)" where
  \<comment> \<open>\<^verbatim>\<open>c => ({ name: c.name, domain: c.domain })\<close>\<close>
  "exampleOf c = (case getp c ''name'' of Inl e \<Rightarrow> Inl e | Inr n \<Rightarrow> Inr (n, jprop c ''domain''))"

definition summaryEntry :: "entry_key \<times> json \<Rightarrow> error + (entry_key \<times> jsval \<times> (jsval \<times> jsval) list)" where
  \<comment> \<open>\<^verbatim>\<open>cookies.length\<close>, then \<^verbatim>\<open>cookies.slice(0, 3).map(...)\<close>: only an array has both methods\<close>
  "summaryEntry e =
     (case snd e of
        JArr ys \<Rightarrow> (case mapE exampleOf (take 3 ys) of
                      Inl err \<Rightarrow> Inl err
                    | Inr exs \<Rightarrow> Inr (fst e, Some (JNum (real (length ys))), exs))
      | _ \<Rightarrow> Inl TypeError)"

definition nullish :: "jsval \<Rightarrow> bool" where
  "nullish v = (v = None \<or> v = Some JNull)"

definition cookieSummary :: "step_data \<Rightarrow> error + (entry_key \<times> jsval \<times> (jsval \<times> jsval) list) list" where
  "cookieSummary data =
     (if nullish (cookies data) then Inl TypeError
      else (case optp (cookies data) ''categories'' of
              None \<Rightarrow> Inr []
            | Some cats \<Rightarrow> (if truthy (Some cats) then mapE summaryEntry (entries cats) else Inr [])))"

definition extractDataUseFromSummary :: "jsval \<Rightarrow> error + json list" where
  \<comment> \<open>\<^verbatim>\<open>summarizerResult.categories.map(...)\<close>: the \<^verbatim>\<open>type\<close> of each entry\<close>
  "extractDataUseFromSummary summarizerResult =
     (if nullish summarizerResult then Inl TypeError
      else (case optp summarizerResult ''categories'' of
              Some (JArr cs) \<Rightarrow> Inr cs
            | _ \<Rightarrow> Inl TypeError))"

text \<open>
  \<^verbatim>\<open>calculateConfidence(data)\<close> is called from \<^verbatim>\<open>combineAnalysisResults\<close> only, after a
  property of each of the four results has been read, so none of them is \<^verbatim>\<open>null\<close> or
  \<^verbatim>\<open>undefined\<close> here. The additions are additions of doubles, in the order of the
  source, and \<^verbatim>\<open>0.2\<close> and \<^verbatim>\<open>0.1\<close> are the doubles nearest to these decimals.
\<close>

definition calculateConfidence :: "coercion \<Rightarrow> step_data \<Rightarrow> real" where
  "calculateConfidence cv data =
     (let confidence0 = (0.5 :: real);
          summary = optp (summarizer data) ''summary'';
          confidence1 = (if truthy summary \<and> js_gt cv (optp summary ''length'') 50
                         then dadd confidence0 (dbl 0.2) else confidence0);
          confidence2 = (if js_add_gt cv (optp (cookies data) ''first_party'')
                                         (optp (cookies data) ''third_party'') 0
                         then dadd confidence1 (dbl 0.1) else confidence1);
          confidence3 = (if optp (deletion data) ''can_delete'' \<noteq> Some (JStr ''unknown'')
                         then dadd confidence2 (dbl 0.1) else confidence2);
          reasons' = optp (risk data) ''reasons'';
          confidence4 = (if truthy reasons' \<and> js_gt cv (optp reasons' ''length'') 1
                         then dadd confidence3 (dbl 0.1) else confidence3)
      in min confidence4 1.0)"

definition combineAnalysisResults :: "coercion \<Rightarrow> step_data \<Rightarrow> error + report" where
  "combineAnalysisResults cv data =
     (case cookieSummary data of
        Inl e \<Rightarrow> Inl e
      | Inr cookieSummary' \<Rightarrow>
          (case extractDataUseFromSummary (summarizer data) of
             Inl e \<Rightarrow> Inl e
           | Inr data_use \<Rightarrow>
               (if nullish (deletion data) \<or> nullish (risk data) then Inl TypeError
                else Inr \<lparr>risk_score = optp (risk data) ''risk_score'',
                          verdict = optp (risk data) ''verdict'',
                          reasons = optp (risk data) ''reasons'',
                          actions = (if truthy (optp (risk data) ''actions'')
                                     then optp (risk data) ''actions'' else Some (JArr [])),
                          confidence = calculateConfidence cv data\<rparr>)))"

text \<open>\<^verbatim>\<open>generateFallbackAnalysis(analysisData)\<close>: the report when the pipeline throws.\<close>

definition generateFallbackAnalysis :: "analysis_data \<Rightarrow> report" where
  "generateFallbackAnalysis analysisData =
     (let thirdPartyCount = or0 (case cookies' analysisData of None \<Rightarrow> None
                                 | Some c \<Rightarrow> thirdPartyCookies c);
          riskScore0 = (30 :: real);
          riskScore1 = (if thirdPartyCount > 5 then riskScore0 + 30 else riskScore0);
          riskScore2 = (if thirdPartyCount > 10 then riskScore1 + 20 else riskScore1);
          riskScore = (if (case privacyPolicyText analysisData of None \<Rightarrow> True | Some t \<Rightarrow> t = [])
                       then riskScore2 + 20 else riskScore2);
          verdict' = (if riskScore < 40 then ''SAFE''
                      else if riskScore < 70 then ''CAUTION'' else ''UNSAFE'')
      in \<lparr>risk_score = Some (JNum (min riskScore 100)),
          verdict = Some (JStr verdict'),
          reasons = Some (JArr [JStr ''AI analysis unavailable'',
                                JStr ''High number of third-party cookies detected'']),
          actions = Some (JArr [JStr ''Review privacy policy manually'',
                                JStr ''Consider blocking third-party cookies'']),
          confidence = dbl 0.3\<rparr>)"

text \<open>
  \<^verbatim>\<open>analyzePrivacyPolicy(analysisData)\<close> of the AI client: four steps, the risk step on
  the results of the other three, then the combination; any exception gives the fallback
  analysis.
\<close>

definition analyzePrivacyPolicy ::
  "(string \<Rightarrow> json option) \<Rightarrow> coercion \<Rightarrow> ai_replies \<Rightarrow> analysis_data \<Rightarrow> report" where
  "analyzePrivacyPolicy parse cv ai analysisData =
     (case runSummarizer parse cv (summarizerReply ai) (privacyPolicyText analysisData) of
        Inl e \<Rightarrow> generateFallbackAnalysis analysisData
      | Inr summarizerResult \<Rightarrow>
     (case runCookieAnalysis parse cv (cookieReply ai) (cookies' analysisData) of
        Inl e \<Rightarrow> generateFallbackAnalysis analysisData
      | Inr cookieResult \<Rightarrow>
     (case runDeletionAnalysis parse cv (deletionReply ai) (privacyPolicyText analysisData) of
        Inl e \<Rightarrow> generateFallbackAnalysis analysisData
      | Inr deletionResult \<Rightarrow>
     (let combinedData = noData\<lparr>summarizer := Some summarizerResult,
                                cookies := Some cookieResult,
                                deletion := Some deletionResult\<rparr>
      in case runRiskAssessment parse cv (riskReply ai) combinedData of
        Inl e \<Rightarrow> generateFallbackAnalysis analysisData
      | Inr riskResult \<Rightarrow>
     (case combineAnalysisResults cv (combinedData\<lparr>risk := Some riskResult\<rparr>) of
        Inl e \<Rightarrow> generateFallbackAnalysis analysisData
      | Inr finalResult \<Rightarrow> finalResult)))))"

section \<open>The heuristic analysis of the service worker\<close>

text \<open>
  The service worker has its own \<^verbatim>\<open>analyzePrivacyPolicy\<close>, a heuristic without any AI
  call; it is \<open>analyzePrivacyPolicy_sw\<close> here.
\<close>

definition analyzePrivacyPolicy_sw :: "analysis_data \<Rightarrow> report" where
  "analyzePrivacyPolicy_sw analysisData =
     (let thirdPartyCount = or0 (case cookies' analysisData of None \<Rightarrow> None
                                 | Some c \<Rightarrow> thirdPartyCookies c);
          hasPrivacyPolicy = (case privacyPolicyLinks analysisData of None \<Rightarrow> False
                              | Some links \<Rightarrow> length links > 0);
          riskScore0 = (30 :: real);
          riskScore1 = (if thirdPartyCount > 5 then riskScore0 + 30 else riskScore0);
          riskScore2 = (if thirdPartyCount > 10 then riskScore1 + 20 else riskScore1);
          riskScore3 = (if \<not> hasPrivacyPolicy then riskScore2 + 20 else riskScore2);
          riskScore = (if (case privacyPolicyText analysisData of None \<Rightarrow> True
                           | Some t \<Rightarrow> t = [] \<or> length t < 100)
                       then riskScore3 + 15 else riskScore3);
          verdict' = (if riskScore < 40 then ''SAFE''
                      else if riskScore < 70 then ''CAUTION'' else ''UNSAFE'');
          reasons' = (if thirdPartyCount > 5 then [JStr ''High number of tracking cookies''] else [])
                   @ (if \<not> hasPrivacyPolicy then [JStr ''No privacy policy found''] else [])
                   @ (case cookieBannerData analysisData of
                        None \<Rightarrow> []
                      | Some b \<Rightarrow> (if hasBanner b \<and> \<not> hasRejectButton b
                                   then [JStr ''Cookie banner without reject option''] else []))
      in \<lparr>risk_score = Some (JNum (min riskScore 100)),
          verdict = Some (JStr verdict'),
          reasons = Some (JArr reasons'),
          actions = Some (JArr [JStr (if thirdPartyCount > 0
                                      then ''Consider blocking third-party cookies''
                                      else ''Cookie usage appears minimal''),
                                JStr (if hasPrivacyPolicy
                                      then ''Review privacy policy manually''
                                      else ''Request privacy information from site'')]),
          confidence = dbl 0.6\<rparr>)"

section \<open>Cookies (cookie-extractor.js and the content script)\<close>

text \<open>\<^verbatim>\<open>s.includes(t)\<close> and \<^verbatim>\<open>s.startsWith(t)\<close> on strings.\<close>

fun str_includes :: "string \<Rightarrow> string \<Rightarrow> bool" where
  "str_includes [] t = (t = [])"
| "str_includes (c # s) t = (prefix t (c # s) \<or> str_includes s t)"

definition startsWith :: "string \<Rightarrow> string \<Rightarrow> bool" where
  "startsWith s t = prefix t s"

text \<open>
  A cookie as \<^verbatim>\<open>chrome.cookies.getAll\<close> returns it, and the record that
  \<^verbatim>\<open>extractCookieData\<close> of cookie-extractor.js makes of it, with the properties read
  below.
\<close>

record chrome_cookie =
  name :: string
  domain :: string

record cookie = chrome_cookie +
  isThirdParty :: bool

text \<open>
  The content script's \<^verbatim>\<open>extractCookieData\<close>. It reads \<^verbatim>\<open>document.cookie\<close>; when
  that throws (the first \<open>None\<close>), the outer handler logs the error and the initial
  data, with both counts 0, is returned. Otherwise the cookies of \<^verbatim>\<open>document.cookie\<close>
  are given by the names of the pairs that the loop keeps. Then it asks the browser for
  the cookies of the page's URL. When the call returns, the third-party cookies are those
  that pass the filter on the domains. When the call throws (the second \<open>None\<close>), the
  inner handler falls back to the cookies of \<^verbatim>\<open>document.cookie\<close>, each of which has
  the page's domain, and takes those for third-party whose name looks like a tracker's.
\<close>

definition cookieDomainOf :: "chrome_cookie \<Rightarrow> string" where
  \<comment> \<open>\<^verbatim>\<open>cookie.domain.startsWith('.') ? cookie.domain.substring(1) : cookie.domain\<close>\<close>
  "cookieDomainOf c = (if startsWith (domain c) ''.'' then drop 1 (domain c) else domain c)"

definition isThirdParty_cs :: "string \<Rightarrow> chrome_cookie \<Rightarrow> bool" where
  "isThirdParty_cs currentDomain c =
     (\<not> str_includes currentDomain (cookieDomainOf c)
      \<and> \<not> str_includes (cookieDomainOf c) currentDomain)"

definition heuristicThirdParty :: "string \<Rightarrow> bool" where
  "heuristicThirdParty n =
     (startsWith n ''_ga'' \<or> startsWith n ''_fb'' \<or> str_includes n ''doubleclick''
      \<or> str_includes n ''google'' \<or> str_includes n ''analytics'')"

definition estimatedDomains :: "string \<Rightarrow> string list" where
  "estimatedDomains n =
     (if startsWith n ''_ga'' then [''google-analytics.com''] else [])
     @ (if startsWith n ''_fb'' then [''facebook.com''] else [])
     @ (if str_includes n ''doubleclick'' then [''doubleclick.net''] else [])"

definition unique :: "string list \<Rightarrow> string list" where
  \<comment> \<open>\<^verbatim>\<open>[...new Set(xs)]\<close>: the first occurrence of each element, in order\<close>
  "unique xs = rev (remdups (rev xs))"

record cookie_data_cs =
  cookieCount_cs :: nat
  thirdPartyCookies_cs :: nat
  thirdPartyDomains :: "string list"

definition extractCookieData_cs ::
  "string \<Rightarrow> string list option \<Rightarrow> chrome_cookie list option \<Rightarrow> cookie_data_cs" where
  "extractCookieData_cs currentDomain document api =
     (case document of
        None \<Rightarrow> \<lparr>cookieCount_cs = 0, thirdPartyCookies_cs = 0, thirdPartyDomains = []\<rparr>
      | Some documentNames \<Rightarrow>
          (case api of
             Some allCookies \<Rightarrow>
               (let thirdPartyCookies' = filter (isThirdParty_cs currentDomain) allCookies
                in \<lparr>cookieCount_cs = length allCookies,
                    thirdPartyCookies_cs = length thirdPartyCookies',
                    thirdPartyDomains = unique (map cookieDomainOf thirdPartyCookies')\<rparr>)
           | None \<Rightarrow>
               (let heuristicThirdParty' = filter heuristicThirdParty documentNames
                in \<lparr>cookieCount_cs = length documentNames,
                    thirdPartyCookies_cs = length heuristicThirdParty',
                    thirdPartyDomains =
                      unique (concat (map estimatedDomains heuristicThirdParty'))\<rparr>)))"

text \<open>
  cookie-extractor.js: a cookie of \<^verbatim>\<open>document.cookie\<close> gets the page's domain and is
  never third-party; a cookie of the browser API is third-party when its domain does not
  contain the page's domain. The count filters once more with the same test.
\<close>

definition fromDocument :: "string \<Rightarrow> string \<Rightarrow> cookie" where
  "fromDocument currentDomain n = \<lparr>name = n, domain = currentDomain, isThirdParty = False\<rparr>"

definition fromChrome :: "string \<Rightarrow> chrome_cookie \<Rightarrow> cookie" where
  "fromChrome currentDomain c =
     \<lparr>name = name c, domain = domain c,
      isThirdParty = (\<not> str_includes (domain c) currentDomain)\<rparr>"

definition countsThirdParty :: "string \<Rightarrow> cookie \<Rightarrow> bool" where
  "countsThirdParty currentDomain c =
     (isThirdParty c \<or> \<not> str_includes (domain c) currentDomain)"

definition thirdPartyCount_ce :: "string \<Rightarrow> string list \<Rightarrow> chrome_cookie list \<Rightarrow> nat" where
  "thirdPartyCount_ce currentDomain documentNames chromeCookies =
     length (filter (countsThirdParty currentDomain)
               (map (fromDocument currentDomain) documentNames
                @ map (fromChrome currentDomain) chromeCookies))"

text \<open>
  The rule of the specification: third-party exactly when neither domain is a
  substring of the other, the cookie's domain without its leading dot.
\<close>

definition spec_thirdParty :: "string \<Rightarrow> string \<Rightarrow> bool" where
  "spec_thirdParty currentDomain cookieDomain =
     (let d = (if cookieDomain \<noteq> [] \<and> hd cookieDomain = CHR ''.'' then tl cookieDomain
               else cookieDomain)
      in \<not> sublist d currentDomain \<and> \<not> sublist currentDomain d)"

subsection \<open>Categories\<close>

text \<open>
  Every pattern of \<^verbatim>\<open>categorizeCookies\<close> is \<^verbatim>\<open>/^word/i\<close> for a word of lower-case
  letters and underscores: it matches a name that starts with the word, letters compared
  without case.
\<close>

definition lower :: "char \<Rightarrow> char" where
  "lower c = (case map_of (zip ''ABCDEFGHIJKLMNOPQRSTUVWXYZ'' ''abcdefghijklmnopqrstuvwxyz'') c of
                None \<Rightarrow> c | Some l \<Rightarrow> l)"

definition test :: "string \<Rightarrow> string \<Rightarrow> bool" where
  \<comment> \<open>\<^verbatim>\<open>/^word/i.test(name)\<close>\<close>
  "test word n = prefix word (map lower n)"

definition patterns :: "(string \<times> string list) list" where
  "patterns =
     [(''essential'', [''session'', ''csrf'', ''auth'', ''login'', ''security'',
                       ''consent'', ''necessary'', ''required'']),
      (''analytics'', [''_ga'', ''_gid'', ''_gtm'', ''_gat'', ''google'',
                       ''analytics'', ''tracking'', ''stats'', ''metrics'',
                       ''utm'', ''hotjar'', ''mixpanel'', ''amplitude'']),
      (''advertising'', [''_fbp'', ''_fbc'', ''facebook'', ''fb'',
                         ''doubleclick'', ''googleads'', ''adsystem'',
                         ''ad'', ''marketing'', ''retargeting'', ''conversion'']),
      (''preferences'', [''pref'', ''settings'', ''theme'', ''language'',
                         ''locale'', ''timezone'', ''currency'']),
      (''social'', [''twitter'', ''linkedin'', ''instagram'', ''youtube'',
                    ''social'', ''share'', ''like''])]"

definition some_test :: "string list \<Rightarrow> string \<Rightarrow> bool" where
  \<comment> \<open>\<^verbatim>\<open>categoryPatterns.some(pattern => pattern.test(cookie.name))\<close>\<close>
  "some_test categoryPatterns n = list_ex (\<lambda>word. test word n) categoryPatterns"

text \<open>The loop over the pattern groups, which stops at the first group that matches.\<close>

fun firstMatch :: "(string \<times> string list) list \<Rightarrow> string \<Rightarrow> string option" where
  "firstMatch [] n = None"
| "firstMatch ((category, categoryPatterns) # rest) n =
     (if some_test categoryPatterns n then Some category else firstMatch rest n)"

definition categoryOf :: "string \<Rightarrow> string" where
  "categoryOf n = (case firstMatch patterns n of Some category \<Rightarrow> category | None \<Rightarrow> ''unknown'')"

record categorized = cookie +
  type' :: string

record categories =
  essential :: "categorized list"
  analytics :: "categorized list"
  advertising :: "categorized list"
  preferences :: "categorized list"
  social :: "categorized list"
  unknown :: "categorized list"

definition entry :: "string \<Rightarrow> cookie \<Rightarrow> categorized" where
  "entry category c =
     \<lparr>name = name c, domain = domain c, isThirdParty = isThirdParty c, type' = category\<rparr>"

definition push :: "string \<Rightarrow> categorized \<Rightarrow> categories \<Rightarrow> categories" where
  \<comment> \<open>\<^verbatim>\<open>categories[category].push(e)\<close> for one of the six keys\<close>
  "push category e cats =
     (if category = ''essential'' then cats\<lparr>essential := essential cats @ [e]\<rparr>
      else if category = ''analytics'' then cats\<lparr>analytics := analytics cats @ [e]\<rparr>
      else if category = ''advertising'' then cats\<lparr>advertising := advertising cats @ [e]\<rparr>
      else if category = ''preferences'' then cats\<lparr>preferences := preferences cats @ [e]\<rparr>
      else if category = ''social'' then cats\<lparr>social := social cats @ [e]\<rparr>
      else cats\<lparr>unknown := unknown cats @ [e]\<rparr>)"

definition bucket :: "string \<Rightarrow> categories \<Rightarrow> categorized list" where
  \<comment> \<open>\<^verbatim>\<open>categories[category]\<close> for one of the six keys\<close>
  "bucket category cats =
     (if category = ''essential'' then essential cats
      else if category = ''analytics'' then analytics cats
      else if category = ''advertising'' then advertising cats
      else if category = ''preferences'' then preferences cats
      else if category = ''social'' then social cats
      else unknown cats)"

definition noCategories :: categories where
  "noCategories = \<lparr>essential = [], analytics = [], advertising = [],
                   preferences = [], social = [], unknown = []\<rparr>"

definition categorizeCookies :: "cookie list \<Rightarrow> categories" where
  "categorizeCookies cs =
     foldl (\<lambda>cats c. push (categoryOf (name c)) (entry (categoryOf (name c)) c) cats)
           noCategories cs"

definition sixCategories :: "string list" where
  "sixCategories = [''essential'', ''analytics'', ''advertising'', ''preferences'',
                    ''social'', ''unknown'']"

text \<open>
  The rule of the specification: the five groups in their order of priority, the first
  that matches wins, and a name that no group matches is unknown.
\<close>

definition matches :: "string \<Rightarrow> string \<Rightarrow> bool" where
  "matches category n =
     (case map_of patterns category of None \<Rightarrow> False | Some ws \<Rightarrow> some_test ws n)"

definition spec_category :: "string \<Rightarrow> string" where
  "spec_category n =
     (if matches ''essential'' n then ''essential''
      else if matches ''analytics'' n then ''analytics''
      else if matches ''advertising'' n then ''advertising''
      else if matches ''preferences'' n then ''preferences''
      else if matches ''social'' n then ''social''
      else ''unknown'')"

section \<open>Privacy-policy links (content script and privacy-scraper.js)\<close>

text \<open>
  The content script scores a qualifying link from its lower-cased, trimmed text, its
  resolved absolute URL and the two hosts. \<^verbatim>\<open>new URL(href, base)\<close> belongs to the
  browser, so the absolute URL and its host are inputs. A link qualifies when its URL
  or its text matches a pattern, or by the rule for legal pages; \<open>urlMatches\<close> is the
  first of the three tests.
\<close>

definition urlPatterns :: "string list" where
  "urlPatterns =
     [''privacy'', ''privacy-policy'', ''privacy_policy'', ''privacypolicy'',
      ''data-protection'', ''data-policy'', ''cookie'', ''cookies'', ''cookie-policy'',
      ''terms'', ''terms-of-service'', ''terms-and-conditions'', ''legal'', ''gdpr'', ''ccpa'',
      ''#privacy'', ''#privacy-policy'', ''#privacy_policy'', ''#data-protection'',
      ''#developer_policy'', ''#user_privacy'', ''#privacy_notice'']"

definition urlMatches :: "string \<Rightarrow> string \<Rightarrow> bool" where
  \<comment> \<open>\<open>href\<close> is the attribute as written, \<open>linkUrl\<close> its lower-case form\<close>
  "urlMatches href linkUrl =
     list_ex (\<lambda>pattern. if startsWith pattern ''#''
                         then str_includes linkUrl pattern \<or> str_includes href pattern
                         else str_includes linkUrl pattern) urlPatterns"

definition priority :: "string \<Rightarrow> string \<Rightarrow> string \<Rightarrow> string \<Rightarrow> int" where
  "priority linkText absoluteUrl linkDomain currentDomain =
     (let priority0 = (0 :: int);
          priority1 = (if str_includes linkText ''privacy policy''
                          \<or> str_includes absoluteUrl ''privacy-policy''
                       then priority0 + 10 else priority0);
          priority2 = (if str_includes linkText ''privacy'' \<or> str_includes absoluteUrl ''privacy''
                       then priority1 + 5 else priority1);
          priority3 = (if str_includes linkText ''legal'' \<or> str_includes absoluteUrl ''legal''
                       then priority2 + 1 else priority2);
          priority4 = (if linkDomain = currentDomain then priority3 + 3 else priority3)
      in priority4)"

text \<open>
  privacy-scraper.js sorts by \<^verbatim>\<open>getPrivacyRelevanceScore(text, url)\<close>: every term of
  three lists adds its own bonus.
\<close>

definition addTerms :: "int \<Rightarrow> string list \<Rightarrow> string \<Rightarrow> string \<Rightarrow> int \<Rightarrow> int" where
  \<comment> \<open>\<^verbatim>\<open>terms.forEach(term => { if (text.includes(term) || url.includes(term)) score += bonus })\<close>\<close>
  "addTerms bonus terms text' url score =
     foldl (\<lambda>sc term. if str_includes text' term \<or> str_includes url term then sc + bonus else sc)
           score terms"

definition getPrivacyRelevanceScore :: "string \<Rightarrow> string \<Rightarrow> int" where
  "getPrivacyRelevanceScore text' url =
     addTerms 1 [''legal'', ''terms''] text' url
       (addTerms 5 [''privacy'', ''cookie'', ''data''] text' url
          (addTerms 10 [''privacy policy'', ''privacy-policy'', ''data protection''] text' url 0))"

text \<open>
  The score of the specification: four independent bonuses, the smallest for a
  legal or a terms term.
\<close>

definition spec_priority :: "string \<Rightarrow> string \<Rightarrow> string \<Rightarrow> string \<Rightarrow> int" where
  "spec_priority linkText absoluteUrl linkDomain currentDomain =
     (if str_includes linkText ''privacy policy'' \<or> str_includes absoluteUrl ''privacy-policy''
      then 10 else 0)
   + (if str_includes linkText ''privacy'' \<or> str_includes absoluteUrl ''privacy'' then 5 else 0)
   + (if str_includes linkText ''legal'' \<or> str_includes absoluteUrl ''legal''
         \<or> str_includes linkText ''terms'' \<or> str_includes absoluteUrl ''terms''
      then 1 else 0)
   + (if linkDomain = currentDomain then 3 else 0)"

section \<open>Verdict thresholds\<close>

text \<open>
  \<^verbatim>\<open>VERDICT_THRESHOLDS\<close> of prompt-templates.js, and the rule the specification
  reads from it: a score up to 30 is SAFE, from 31 to 70 CAUTION, from 71 UNSAFE.
\<close>

definition VERDICT_THRESHOLDS :: "(string \<times> real \<times> real) list" where
  "VERDICT_THRESHOLDS = [(''SAFE'', 0, 30), (''CAUTION'', 31, 70), (''UNSAFE'', 71, 100)]"

definition spec_consistent :: "jsval \<Rightarrow> jsval \<Rightarrow> bool" where
  "spec_consistent score v =
     (case score of
        Some (JNum n) \<Rightarrow>
          (n \<le> 30 \<longrightarrow> v = Some (JStr ''SAFE''))
          \<and> (31 \<le> n \<and> n \<le> 70 \<longrightarrow> v = Some (JStr ''CAUTION''))
          \<and> (71 \<le> n \<longrightarrow> v = Some (JStr ''UNSAFE''))
      | _ \<Rightarrow> False)"

definition in_range :: "jsval \<Rightarrow> real \<Rightarrow> real \<Rightarrow> bool" where
  "in_range score lo hi = (case score of Some (JNum n) \<Rightarrow> lo \<le> n \<and> n \<le> hi | _ \<Rightarrow> False)"

section \<open>Properties\<close>

text \<open>
  A step result is the AI's when the call returned a response that
  \<^verbatim>\<open>validateResponse\<close> accepts; otherwise it is the fallback's.
\<close>

definition accepted :: "(string \<Rightarrow> json option) \<Rightarrow> string \<Rightarrow> string option \<Rightarrow> bool" where
  "accepted parse templateName reply =
     (case reply of None \<Rightarrow> False | Some response \<Rightarrow> validateResponse parse templateName response)"

text \<open>
  The threshold rule without a statement about the score 70: up to 30 is SAFE, from 31
  and below 70 is CAUTION, from 71 is UNSAFE.
\<close>

definition consistent_except_70 :: "jsval \<Rightarrow> jsval \<Rightarrow> bool" where
  "consistent_except_70 score v =
     (case score of
        Some (JNum n) \<Rightarrow>
          (n \<le> 30 \<longrightarrow> v = Some (JStr ''SAFE''))
          \<and> (31 \<le> n \<and> n < 70 \<longrightarrow> v = Some (JStr ''CAUTION''))
          \<and> (71 \<le> n \<longrightarrow> v = Some (JStr ''UNSAFE''))
      | _ \<Rightarrow> False)"

definition isVerdict :: "jsval \<Rightarrow> bool" where
  "isVerdict v = includes_str [''SAFE'', ''CAUTION'', ''UNSAFE''] v"

text \<open>The input without any AI reply, and the input of scenario 1.\<close>

definition noReplies :: ai_replies where
  "noReplies = \<lparr>summarizerReply = None, cookieReply = None, deletionReply = None, riskReply = None\<rparr>"

definition nothingFound :: "analysis_data \<Rightarrow> bool" where
  \<comment> \<open>zero privacy-policy links, zero cookies, empty policy text\<close>
  "nothingFound d =
     ((privacyPolicyLinks d = None \<or> privacyPolicyLinks d = Some [])
      \<and> (privacyPolicyText d = None \<or> privacyPolicyText d = Some [])
      \<and> (case cookies' d of
            None \<Rightarrow> True
          | Some c \<Rightarrow> or0 (cookieCount c) = 0 \<and> or0 (thirdPartyCookies c) = 0))"

text \<open>
  Concrete parameters for the examples: a parser that knows one response text, the
  conversion that makes every string, array and object NaN, and the conversion that
  knows the number of one value.
\<close>

definition parses_only :: "string \<Rightarrow> json \<Rightarrow> string \<Rightarrow> json option" where
  "parses_only text' v s = (if s = text' then Some v else None)"

definition nan_coercion :: coercion where
  "nan_coercion vs = NaN"

definition coerces_only :: "jsval \<Rightarrow> jsnum \<Rightarrow> coercion" where
  "coerces_only v n vs = (if vs = [v] then n else NaN)"

text \<open>
  The pairs of score and verdict that the risk fallback and the two heuristic reports
  can give.
\<close>

definition riskFallbackResults :: "(real \<times> string) list" where
  "riskFallbackResults = [(50, ''CAUTION''), (65, ''CAUTION''), (70, ''UNSAFE''), (85, ''UNSAFE'')]"

definition fallbackAnalysisResults :: "(real \<times> string) list" where
  "fallbackAnalysisResults =
     [(30, ''SAFE''), (50, ''CAUTION''), (60, ''CAUTION''), (80, ''UNSAFE''), (100, ''UNSAFE'')]"

definition heuristicResults :: "(real \<times> string) list" where
  "heuristicResults =
     [(30, ''SAFE''), (45, ''CAUTION''), (50, ''CAUTION''), (60, ''CAUTION''), (65, ''CAUTION''),
      (75, ''UNSAFE''), (80, ''UNSAFE''), (95, ''UNSAFE''), (100, ''UNSAFE'')]"

text \<open>
  The values that the confidence of a combined report can have: the sums of doubles
  that print as 0.5, 0.6, 0.7, 0.7999999999999999, 0.8999999999999999 and
  0.9999999999999999.
\<close>

definition confidenceValues :: "real list" where
  "confidenceValues =
     [1 / 2,
      5404319552844595 / 9007199254740992,
      3152519739159347 / 4503599627370496,
      7205759403792793 / 9007199254740992,
      2026619832316723 / 2251799813685248,
      9007199254740991 / 9007199254740992]"

text \<open>
  The cookie counts for which the cookie fallback is a JSON value with numbers in both
  places: the third-party count, after \<^verbatim>\<open>|| 0\<close>, is a finite number, and so is the
  difference of the two counts.
\<close>

definition finiteCounts :: "coercion \<Rightarrow> step_data \<Rightarrow> bool" where
  "finiteCounts cv d =
     (let cookieCount' = orZero (optp (cookieData d) ''cookieCount'');
          thirdParty = orZero (optp (cookieData d) ''thirdPartyCookies'')
      in (case thirdParty of JNumber (Finite t) \<Rightarrow> True | _ \<Rightarrow> False)
         \<and> (case js_sub cv (Some cookieCount') (Some thirdParty) of Finite f \<Rightarrow> True | _ \<Rightarrow> False))"

section \<open>Lemmas on the arithmetic of doubles\<close>

lemma binade_fuel_numeral:
  "binade_fuel (numeral k) x =
     (if 2 \<le> x then binade_fuel (pred_numeral k) (x / 2) + 1
      else if x < 1 then binade_fuel (pred_numeral k) (2 * x) - 1
      else 0)"
  by (simp add: numeral_eq_Suc)

lemmas dbl_eval = dbl_def dadd_def binade_def binade_fuel_numeral rne_def scale2_def Let_def

lemma dbl_zero: "dbl 0 = 0"
  by (simp add: dbl_def)

text \<open>Below \<open>2^53\<close> no sum overflows.\<close>

lemma round_double_small: "\<bar>x\<bar> < 2 ^ 53 \<Longrightarrow> round_double x = Finite (dbl x)"
proof -
  have "(2::real) ^ 53 \<le> 2 ^ 1024 - 2 ^ 970" by simp
  then show "\<bar>x\<bar> < 2 ^ 53 \<Longrightarrow> round_double x = Finite (dbl x)"
    by (simp add: round_double_def)
qed

lemma dbl_small_integers:
  "dbl 1 = 1" "dbl 2 = 2" "dbl 3 = 3" "dbl 8 = 8" "dbl 14 = 14"
  by (simp_all add: dbl_eval)

lemma dbl_literals:
  "dbl (1 / 5) = 3602879701896397 / 18014398509481984"
  "dbl (1 / 10) = 3602879701896397 / 36028797018963968"
  "dbl (3 / 10) = 5404319552844595 / 18014398509481984"
  "dbl (3 / 5) = 5404319552844595 / 9007199254740992"
  by (simp_all add: dbl_eval)

lemma dadd_sums:
  "dadd (1 / 2) (3602879701896397 / 18014398509481984) = 3152519739159347 / 4503599627370496"
  "dadd (1 / 2) (3602879701896397 / 36028797018963968) = 5404319552844595 / 9007199254740992"
  "dadd (5404319552844595 / 9007199254740992) (3602879701896397 / 36028797018963968)
     = 3152519739159347 / 4503599627370496"
  "dadd (3152519739159347 / 4503599627370496) (3602879701896397 / 36028797018963968)
     = 7205759403792793 / 9007199254740992"
  "dadd (7205759403792793 / 9007199254740992) (3602879701896397 / 36028797018963968)
     = 2026619832316723 / 2251799813685248"
  "dadd (2026619832316723 / 2251799813685248) (3602879701896397 / 36028797018963968)
     = 9007199254740991 / 9007199254740992"
  by (simp_all add: dbl_eval)

lemma calculateConfidence_values:
  "calculateConfidence cv data \<in> set confidenceValues"
  by (simp add: calculateConfidence_def Let_def dbl_literals dadd_sums confidenceValues_def)

lemma confidenceValues_bounds:
  "c \<in> set confidenceValues \<Longrightarrow> 1 / 2 \<le> c \<and> c \<le> 1"
  by (auto simp: confidenceValues_def)

section \<open>Lemmas on validation and on the pipeline\<close>

lemma validateResponse_parsed:
  "parse s = Some r \<Longrightarrow> validateResponse parse t s = (validateParsed t r = Inr True)"
  by (cases "validateParsed t r") (auto simp: validateResponse_def)

lemma validateResponse_unparsed:
  "parse s = None \<Longrightarrow> \<not> validateResponse parse t s"
  by (simp add: validateResponse_def)

text \<open>A step result is either the fallback's or a parsed reply that the validator accepts.\<close>

lemma useReply_cases:
  assumes "useReply parse t reply fb = Inr r"
  shows "(\<not> accepted parse t reply \<and> fb = Inr r)
       \<or> (accepted parse t reply \<and> validateParsed t r = Inr True)"
  using assms
  by (auto simp: useReply_def accepted_def validateResponse_parsed validateResponse_unparsed
        split: option.splits if_splits)

lemma risk_validated:
  assumes "validateParsed ''RISK_SCORER'' r = Inr True"
  shows "isNumber (optp (Some r) ''risk_score'') \<and> isVerdict (optp (Some r) ''verdict'')"
  using assms
  by (cases r) (auto simp: validateParsed_def getp_def optp_def isVerdict_def split: sum.splits if_splits)

lemma risk_fallback_values:
  assumes "generateFallbackResponse cv ''RISK_SCORER'' (Some d) = Inr r"
  shows "\<exists>n v. optp (Some r) ''risk_score'' = Some (JNum n) \<and> optp (Some r) ''verdict'' = Some (JStr v)
           \<and> (n, v) \<in> set riskFallbackResults"
  using assms
  by (auto simp: generateFallbackResponse_def Let_def optp_def riskFallbackResults_def split: if_splits)

lemma combine_fields:
  assumes "combineAnalysisResults cv data = Inr rep"
  shows "risk_score rep = optp (risk data) ''risk_score'' \<and> verdict rep = optp (risk data) ''verdict''
         \<and> confidence rep = calculateConfidence cv data"
  using assms by (auto simp: combineAnalysisResults_def split: sum.splits if_splits)

text \<open>
  The report of the AI client is the fallback analysis, or the combination of step
  results whose risk result is what \<^verbatim>\<open>runRiskAssessment\<close> returned.
\<close>

lemma analyze_cases:
  "analyzePrivacyPolicy parse cv ai d = generateFallbackAnalysis d
   \<or> (\<exists>cd r. runRiskAssessment parse cv (riskReply ai) cd = Inr r
        \<and> combineAnalysisResults cv (cd\<lparr>risk := Some r\<rparr>) = Inr (analyzePrivacyPolicy parse cv ai d))"
  unfolding analyzePrivacyPolicy_def Let_def
  by (auto split: sum.splits)

lemma fallbackAnalysis_values:
  "\<exists>n v. risk_score (generateFallbackAnalysis d) = Some (JNum n)
      \<and> verdict (generateFallbackAnalysis d) = Some (JStr v)
      \<and> (n, v) \<in> set fallbackAnalysisResults"
  by (auto simp: generateFallbackAnalysis_def Let_def fallbackAnalysisResults_def)

lemma sw_values:
  "\<exists>n v. risk_score (analyzePrivacyPolicy_sw d) = Some (JNum n)
      \<and> verdict (analyzePrivacyPolicy_sw d) = Some (JStr v)
      \<and> (n, v) \<in> set heuristicResults"
  by (auto simp: analyzePrivacyPolicy_sw_def Let_def heuristicResults_def)

lemma results_verdict:
  "(n, v) \<in> set riskFallbackResults \<or> (n, v) \<in> set fallbackAnalysisResults
     \<or> (n, v) \<in> set heuristicResults \<Longrightarrow> isVerdict (Some (JStr v))"
  by (auto simp: riskFallbackResults_def fallbackAnalysisResults_def heuristicResults_def
        isVerdict_def includes_str_def)

text \<open>
  What the risk step contributes to the report: a numeric score and one of the three
  verdicts, and the result of a fallback when the AI's reply was not accepted.
\<close>

lemma report_risk:
  "(\<exists>n. risk_score (analyzePrivacyPolicy parse cv ai d) = Some (JNumber n))
   \<and> isVerdict (verdict (analyzePrivacyPolicy parse cv ai d))
   \<and> (\<not> accepted parse ''RISK_SCORER'' (riskReply ai) \<longrightarrow>
        (\<exists>n v. risk_score (analyzePrivacyPolicy parse cv ai d) = Some (JNum n)
              \<and> verdict (analyzePrivacyPolicy parse cv ai d) = Some (JStr v)
              \<and> ((n, v) \<in> set riskFallbackResults \<or> (n, v) \<in> set fallbackAnalysisResults)))"
proof -
  let ?rep = "analyzePrivacyPolicy parse cv ai d"
  show ?thesis
    using analyze_cases [of parse cv ai d]
  proof
    assume "?rep = generateFallbackAnalysis d"
    moreover obtain n v where nv: "risk_score (generateFallbackAnalysis d) = Some (JNum n)"
        "verdict (generateFallbackAnalysis d) = Some (JStr v)"
        "(n, v) \<in> set fallbackAnalysisResults"
      using fallbackAnalysis_values [of d] by blast
    moreover from nv(3) have "isVerdict (Some (JStr v))"
      using results_verdict by blast
    ultimately show ?thesis using nv(3) by simp
  next
    assume "\<exists>cd r. runRiskAssessment parse cv (riskReply ai) cd = Inr r
        \<and> combineAnalysisResults cv (cd\<lparr>risk := Some r\<rparr>) = Inr ?rep"
    then obtain cd r where r: "runRiskAssessment parse cv (riskReply ai) cd = Inr r"
      and c: "combineAnalysisResults cv (cd\<lparr>risk := Some r\<rparr>) = Inr ?rep" by blast
    from combine_fields [OF c]
    have f: "risk_score ?rep = optp (Some r) ''risk_score''" "verdict ?rep = optp (Some r) ''verdict''"
      by simp_all
    from r have "(\<not> accepted parse ''RISK_SCORER'' (riskReply ai)
                  \<and> generateFallbackResponse cv ''RISK_SCORER'' (Some cd) = Inr r)
       \<or> (accepted parse ''RISK_SCORER'' (riskReply ai) \<and> validateParsed ''RISK_SCORER'' r = Inr True)"
      unfolding runRiskAssessment_def by (rule useReply_cases)
    then show ?thesis
    proof
      assume a: "\<not> accepted parse ''RISK_SCORER'' (riskReply ai)
                  \<and> generateFallbackResponse cv ''RISK_SCORER'' (Some cd) = Inr r"
      then obtain n v where nv: "optp (Some r) ''risk_score'' = Some (JNum n)"
          "optp (Some r) ''verdict'' = Some (JStr v)"
          "(n, v) \<in> set riskFallbackResults"
        using risk_fallback_values [of cv cd r] by blast
      from nv(3) have "isVerdict (Some (JStr v))"
        using results_verdict by blast
      then show ?thesis
        using nv f by simp
    next
      assume a: "accepted parse ''RISK_SCORER'' (riskReply ai) \<and> validateParsed ''RISK_SCORER'' r = Inr True"
      then show ?thesis
        using risk_validated [of r] f by (auto simp: isNumber_def split: option.splits json.splits)
    qed
  qed
qed

lemmas run_defs = analyzePrivacyPolicy_def runSummarizer_def runCookieAnalysis_def
  runDeletionAnalysis_def runRiskAssessment_def useReply_def generateFallbackResponse_def
  combineAnalysisResults_def cookieSummary_def extractDataUseFromSummary_def
  calculateConfidence_def validateResponse_def validateParsed_def getp_def optp_def
  nullish_def isNumber_def isArray_def includes_str_def js_gt_def js_add_gt_def js_sub_def
  jsub_def js_numeric_def toNumber_def orZero_def cookieDataValue_def noData_def noReplies_def
  or0_def Let_def parses_only_def nan_coercion_def coerces_only_def round_double_small
  dbl_zero dbl_literals dadd_sums

lemma risk_fallback_consistent:
  "(n, v) \<in> set riskFallbackResults \<Longrightarrow> consistent_except_70 (Some (JNum n)) (Some (JStr v))"
  by (auto simp: riskFallbackResults_def consistent_except_70_def)

lemma fallbackAnalysis_consistent:
  "(n, v) \<in> set fallbackAnalysisResults \<Longrightarrow> spec_consistent (Some (JNum n)) (Some (JStr v))"
  by (auto simp: fallbackAnalysisResults_def spec_consistent_def)

lemma heuristic_consistent:
  "(n, v) \<in> set heuristicResults \<Longrightarrow> spec_consistent (Some (JNum n)) (Some (JStr v))"
  by (auto simp: heuristicResults_def spec_consistent_def)

lemma spec_consistent_weaken:
  "spec_consistent s v \<Longrightarrow> consistent_except_70 s v"
  by (auto simp: spec_consistent_def consistent_except_70_def
        split: option.splits json.splits jsnum.splits)

lemma results_in_range:
  "(n, v) \<in> set riskFallbackResults \<or> (n, v) \<in> set fallbackAnalysisResults
     \<or> (n, v) \<in> set heuristicResults \<Longrightarrow> in_range (Some (JNum n)) 0 100"
  by (auto simp: riskFallbackResults_def fallbackAnalysisResults_def heuristicResults_def
        in_range_def)

text \<open>
  An unrecognised template name takes the default branch of the validator, and a name
  that the template table does not have at all makes \<^verbatim>\<open>formatPrompt\<close> throw.
\<close>

lemma validateResponse_default:
  assumes "templateName \<notin> {''SUMMARIZER'', ''COOKIE_ANALYZER'', ''DELETION_ANALYZER'', ''RISK_SCORER''}"
  shows "validateResponse parse templateName response = (parse response \<noteq> None)"
  using assms by (auto simp: validateResponse_def validateParsed_def split: option.splits)

lemma formatPrompt_absent:
  assumes "PROMPT_TEMPLATES tpl templateName = Absent"
  shows "formatPrompt tpl render replaceAll templateName variables = Inl (UnknownTemplate templateName)"
  using assms by (simp add: formatPrompt_def)

section \<open>Verdict and risk score of a report\<close>

text \<open>
  Claim C1, as amended. The claim says that in every report the verdict follows from
  the risk score by the thresholds (up to 30 SAFE, 31 to 70 CAUTION, from 71 UNSAFE),
  for AI-derived and for fallback-derived results. The code checks an AI reply only
  for a numeric score and one of the three verdicts, so an accepted reply can pair any
  score with any verdict (see the counterexample). What holds: every report has one of
  the three verdicts; when the risk reply of the AI was not accepted, the report
  satisfies the thresholds except that nothing is said about the score 70; the report of
  \<^verbatim>\<open>generateFallbackAnalysis\<close> and the report of the service worker's heuristic
  satisfy the thresholds as the claim states them.
\<close>

theorem verdict_consistency_fallback:
  "isVerdict (verdict (analyzePrivacyPolicy parse cv ai d))
   \<and> (\<not> accepted parse ''RISK_SCORER'' (riskReply ai) \<longrightarrow>
        consistent_except_70 (risk_score (analyzePrivacyPolicy parse cv ai d))
                             (verdict (analyzePrivacyPolicy parse cv ai d)))
   \<and> spec_consistent (risk_score (generateFallbackAnalysis d)) (verdict (generateFallbackAnalysis d))
   \<and> spec_consistent (risk_score (analyzePrivacyPolicy_sw d)) (verdict (analyzePrivacyPolicy_sw d))"
proof -
  let ?rep = "analyzePrivacyPolicy parse cv ai d"
  have fa: "spec_consistent (risk_score (generateFallbackAnalysis d)) (verdict (generateFallbackAnalysis d))"
    using fallbackAnalysis_values [of d] fallbackAnalysis_consistent by auto
  have sw: "spec_consistent (risk_score (analyzePrivacyPolicy_sw d)) (verdict (analyzePrivacyPolicy_sw d))"
    using sw_values [of d] heuristic_consistent by auto
  have "consistent_except_70 (risk_score ?rep) (verdict ?rep)"
    if "\<not> accepted parse ''RISK_SCORER'' (riskReply ai)"
  proof -
    from that report_risk [of parse cv ai d]
    obtain n v where nv: "risk_score ?rep = Some (JNum n)" "verdict ?rep = Some (JStr v)"
      "(n, v) \<in> set riskFallbackResults \<or> (n, v) \<in> set fallbackAnalysisResults" by blast
    from nv(3) have "consistent_except_70 (Some (JNum n)) (Some (JStr v))"
      using risk_fallback_consistent fallbackAnalysis_consistent spec_consistent_weaken by blast
    with nv(1,2) show ?thesis by simp
  qed
  with fa sw report_risk [of parse cv ai d] show ?thesis by blast
qed

text \<open>
  The AI is not available and nothing was scraped: the risk fallback gives the score 50
  with CAUTION.
\<close>

theorem verdict_consistency_fallback_witness:
  "\<not> accepted (parses_only ''null'' JNull) ''RISK_SCORER'' (riskReply noReplies)
   \<and> consistent_except_70
        (risk_score (analyzePrivacyPolicy (parses_only ''null'' JNull) nan_coercion noReplies
           \<lparr>privacyPolicyText = None, privacyPolicyLinks = None, cookies' = None, cookieBannerData = None\<rparr>))
        (verdict (analyzePrivacyPolicy (parses_only ''null'' JNull) nan_coercion noReplies
           \<lparr>privacyPolicyText = None, privacyPolicyLinks = None, cookies' = None, cookieBannerData = None\<rparr>))
   \<and> risk_score (analyzePrivacyPolicy (parses_only ''null'' JNull) nan_coercion noReplies
           \<lparr>privacyPolicyText = None, privacyPolicyLinks = None, cookies' = None, cookieBannerData = None\<rparr>)
       = Some (JNum 50)"
  using verdict_consistency_fallback [of "parses_only ''null'' JNull" nan_coercion noReplies
           "\<lparr>privacyPolicyText = None, privacyPolicyLinks = None, cookies' = None, cookieBannerData = None\<rparr>"]
  by (simp add: run_defs accepted_def)

text \<open>
  Claim C1 as stated fails: the AI answers the risk prompt with the score 10 and the
  verdict UNSAFE, the validator accepts the reply, and the report carries both.
\<close>

theorem verdict_consistency_counterexample:
  "\<not> spec_consistent
       (risk_score (analyzePrivacyPolicy
          (parses_only ''{\"risk_score\":10,\"verdict\":\"UNSAFE\",\"reasons\":[]}''
             (JObj [(''risk_score'', JNum 10), (''verdict'', JStr ''UNSAFE''), (''reasons'', JArr [])]))
          nan_coercion
          (noReplies\<lparr>riskReply := Some ''{\"risk_score\":10,\"verdict\":\"UNSAFE\",\"reasons\":[]}''\<rparr>)
          \<lparr>privacyPolicyText = None, privacyPolicyLinks = None, cookies' = None, cookieBannerData = None\<rparr>))
       (verdict (analyzePrivacyPolicy
          (parses_only ''{\"risk_score\":10,\"verdict\":\"UNSAFE\",\"reasons\":[]}''
             (JObj [(''risk_score'', JNum 10), (''verdict'', JStr ''UNSAFE''), (''reasons'', JArr [])]))
          nan_coercion
          (noReplies\<lparr>riskReply := Some ''{\"risk_score\":10,\"verdict\":\"UNSAFE\",\"reasons\":[]}''\<rparr>)
          \<lparr>privacyPolicyText = None, privacyPolicyLinks = None, cookies' = None, cookieBannerData = None\<rparr>))"
  by (simp add: run_defs spec_consistent_def)

text \<open>
  The risk fallback itself departs from the thresholds at one score: more than five
  third-party cookies and no refusal of deletion give the score 70 with the verdict
  UNSAFE, where \<^verbatim>\<open>VERDICT_THRESHOLDS\<close> has 70 as the upper end of CAUTION. With six
  third-party cookies and no AI reply, that is the report.
\<close>

lemma risk_fallback_at_70:
  "generateFallbackResponse nan_coercion ''RISK_SCORER''
     (Some (noData\<lparr>cookies := Some (JObj [(''third_party'', JNum 6)])\<rparr>))
   = Inr (JObj [(''risk_score'', JNum 70), (''verdict'', JStr ''UNSAFE''),
                (''reasons'', JArr [JStr ''AI analysis unavailable'', JStr ''Manual review recommended'']),
                (''actions'', JArr [JStr ''Review privacy policy manually'',
                                    JStr ''Contact site for data practices''])])
   \<and> (''CAUTION'', 31, 70) \<in> set VERDICT_THRESHOLDS"
  by (simp add: run_defs VERDICT_THRESHOLDS_def)

lemma report_at_70:
  "risk_score (analyzePrivacyPolicy (parses_only ''null'' JNull) nan_coercion noReplies
      \<lparr>privacyPolicyText = None, privacyPolicyLinks = None,
       cookies' = Some \<lparr>cookieCount = Some 8, thirdPartyCookies = Some 6\<rparr>,
       cookieBannerData = None\<rparr>) = Some (JNum 70)
   \<and> verdict (analyzePrivacyPolicy (parses_only ''null'' JNull) nan_coercion noReplies
      \<lparr>privacyPolicyText = None, privacyPolicyLinks = None,
       cookies' = Some \<lparr>cookieCount = Some 8, thirdPartyCookies = Some 6\<rparr>,
       cookieBannerData = None\<rparr>) = Some (JStr ''UNSAFE'')"
  by (simp add: run_defs)

text \<open>
  Claim C3, as amended. The claim says that the risk score of every report is within
  0 and 100, for AI-derived results and on both fallback paths. The validator accepts
  any number as the score of an AI reply (see the counterexample). What holds: the
  score of every report is a number; it is within 0 and 100 when the risk reply of
  the AI was not accepted, in the report of \<^verbatim>\<open>generateFallbackAnalysis\<close> and in the
  report of the service worker's heuristic.
\<close>

theorem risk_score_range_fallback:
  "(\<exists>n. risk_score (analyzePrivacyPolicy parse cv ai d) = Some (JNumber n))
   \<and> (\<not> accepted parse ''RISK_SCORER'' (riskReply ai) \<longrightarrow>
        in_range (risk_score (analyzePrivacyPolicy parse cv ai d)) 0 100)
   \<and> in_range (risk_score (generateFallbackAnalysis d)) 0 100
   \<and> in_range (risk_score (analyzePrivacyPolicy_sw d)) 0 100"
proof -
  let ?rep = "analyzePrivacyPolicy parse cv ai d"
  have fa: "in_range (risk_score (generateFallbackAnalysis d)) 0 100"
    using fallbackAnalysis_values [of d] results_in_range by (metis (no_types))
  have sw: "in_range (risk_score (analyzePrivacyPolicy_sw d)) 0 100"
    using sw_values [of d] results_in_range by (metis (no_types))
  have "in_range (risk_score ?rep) 0 100"
    if "\<not> accepted parse ''RISK_SCORER'' (riskReply ai)"
  proof -
    from that report_risk [of parse cv ai d]
    obtain n v where nv: "risk_score ?rep = Some (JNum n)" "verdict ?rep = Some (JStr v)"
      "(n, v) \<in> set riskFallbackResults \<or> (n, v) \<in> set fallbackAnalysisResults" by blast
    from nv(3) have "in_range (Some (JNum n)) 0 100"
      using results_in_range by blast
    with nv(1) show ?thesis by simp
  qed
  with fa sw report_risk [of parse cv ai d] show ?thesis by blast
qed

theorem risk_score_range_fallback_witness:
  "\<not> accepted (parses_only ''null'' JNull) ''RISK_SCORER'' (riskReply noReplies)
   \<and> in_range
        (risk_score (analyzePrivacyPolicy (parses_only ''null'' JNull) nan_coercion noReplies
           \<lparr>privacyPolicyText = None, privacyPolicyLinks = None, cookies' = None, cookieBannerData = None\<rparr>))
        0 100"
  using risk_score_range_fallback [of "parses_only ''null'' JNull" nan_coercion noReplies
           "\<lparr>privacyPolicyText = None, privacyPolicyLinks = None, cookies' = None, cookieBannerData = None\<rparr>"]
  by (simp add: accepted_def noReplies_def)

text \<open>
  Claim C3 as stated fails: the AI answers the risk prompt with the score 150, the
  validator accepts the reply, and the report carries the score.
\<close>

theorem risk_score_range_counterexample:
  "\<not> in_range
       (risk_score (analyzePrivacyPolicy
          (parses_only ''{\"risk_score\":150,\"verdict\":\"UNSAFE\",\"reasons\":[]}''
             (JObj [(''risk_score'', JNum 150), (''verdict'', JStr ''UNSAFE''), (''reasons'', JArr [])]))
          nan_coercion
          (noReplies\<lparr>riskReply := Some ''{\"risk_score\":150,\"verdict\":\"UNSAFE\",\"reasons\":[]}''\<rparr>)
          \<lparr>privacyPolicyText = None, privacyPolicyLinks = None, cookies' = None, cookieBannerData = None\<rparr>))
       0 100"
  by (simp add: run_defs in_range_def)

section \<open>The fallback generator\<close>

text \<open>
  The cookie step and the risk step read a property of \<^verbatim>\<open>inputData\<close>: without an
  input object they throw.
\<close>

lemma fallback_without_input:
  "generateFallbackResponse cv ''COOKIE_ANALYZER'' None = Inl TypeError"
  "generateFallbackResponse cv ''RISK_SCORER'' None = Inl TypeError"
  by (simp_all add: generateFallbackResponse_def)



text \<open>
  Counts as the extractors give them, numbers of a magnitude of at most \<open>2^53\<close> or
  missing, are finite counts.
\<close>

lemma finiteCounts_numbers:
  assumes "optp (cookieData d) ''cookieCount'' = Some (JNum a)
             \<or> optp (cookieData d) ''cookieCount'' = None \<and> a = 0"
    and "optp (cookieData d) ''thirdPartyCookies'' = Some (JNum b)
             \<or> optp (cookieData d) ''thirdPartyCookies'' = None \<and> b = 0"
    and "\<bar>a\<bar> \<le> 2 ^ 53" and "\<bar>b\<bar> \<le> 2 ^ 53"
  shows "finiteCounts cv d"
proof -
  from assms(1) have a: "orZero (optp (cookieData d) ''cookieCount'') = JNum a"
    by (auto simp: orZero_def)
  from assms(2) have b: "orZero (optp (cookieData d) ''thirdPartyCookies'') = JNum b"
    by (auto simp: orZero_def)
  from assms(3,4) have "\<bar>a + - b\<bar> \<le> 2 ^ 54" by simp
  also have "(2 :: real) ^ 54 < 2 ^ 1024 - 2 ^ 970" by simp
  finally have "round_double (a + - b) = Finite (dbl (a + - b))"
    by (simp add: round_double_def)
  then show ?thesis
    by (simp add: finiteCounts_def a b js_sub_def jsub_def toNumber_def)
qed




text \<open>
  The other way to fail: the counts 2 to the power 1023 and its negative are numbers, their
  difference is \<^verbatim>\<open>Infinity\<close>, which \<^verbatim>\<open>JSON.stringify\<close> writes as \<^verbatim>\<open>null\<close>.
\<close>

lemma cookie_fallback_overflow:
  "generateFallbackResponse nan_coercion ''COOKIE_ANALYZER''
     (Some (noData\<lparr>cookieData := Some (JObj [(''cookieCount'', JNum (2 ^ 1023)),
                                               (''thirdPartyCookies'', JNum (- (2 ^ 1023)))])\<rparr>))
   = Inr (JObj [(''first_party'', JNumber PosInf), (''third_party'', JNum (- (2 ^ 1023))),
                (''tracking'', JStr ''unknown''), (''categories'', JObj [])])
   \<and> validateParsed ''COOKIE_ANALYZER''
        (roundtrip (JObj [(''first_party'', JNumber PosInf), (''third_party'', JNum (- (2 ^ 1023))),
                          (''tracking'', JStr ''unknown''), (''categories'', JObj [])])) = Inr False"
  by (simp add: generateFallbackResponse_def Let_def optp_def orZero_def js_sub_def jsub_def
        toNumber_def js_gt_def round_double_def validateParsed_def getp_def isNumber_def noData_def)


section \<open>Confidence\<close>

text \<open>
  Claim C8. The confidence that \<^verbatim>\<open>calculateConfidence\<close> computes is between 0.5 and
  1: it starts at 0.5, every bonus is positive, and the sum is capped at 1. So a report
  that \<^verbatim>\<open>combineAnalysisResults\<close> returns has a confidence of at least 0.5.
\<close>

theorem confidence_bounds:
  "0.5 \<le> calculateConfidence cv data \<and> calculateConfidence cv data \<le> 1
   \<and> (\<forall>rep. combineAnalysisResults cv data = Inr rep \<longrightarrow>
         0.5 \<le> confidence rep \<and> confidence rep \<le> 1)"
proof -
  have b: "0.5 \<le> calculateConfidence cv data \<and> calculateConfidence cv data \<le> 1"
    using confidenceValues_bounds [OF calculateConfidence_values [of cv data]] by simp
  have "confidence rep = calculateConfidence cv data"
    if "combineAnalysisResults cv data = Inr rep" for rep
    using that combine_fields by blast
  with b show ?thesis by simp
qed

theorem confidence_bounds_witness:
  "combineAnalysisResults nan_coercion
     (noData\<lparr>summarizer := Some (JObj [(''summary'', JStr ''ok''), (''categories'', JArr [])]),
             cookies := Some (JObj [(''first_party'', JNum 1), (''third_party'', JNum 0)]),
             deletion := Some (JObj [(''can_delete'', JStr ''yes'')]),
             risk := Some (JObj [(''risk_score'', JNum 40), (''verdict'', JStr ''CAUTION''),
                                 (''reasons'', JArr [])])\<rparr>)
   = Inr \<lparr>risk_score = Some (JNum 40), verdict = Some (JStr ''CAUTION''),
          reasons = Some (JArr []), actions = Some (JArr []),
          confidence = 3152519739159347 / 4503599627370496\<rparr>
   \<and> (0.5 :: real) \<le> 3152519739159347 / 4503599627370496
   \<and> (3152519739159347 / 4503599627370496 :: real) \<le> 1"
  using confidence_bounds [of nan_coercion
     "noData\<lparr>summarizer := Some (JObj [(''summary'', JStr ''ok''), (''categories'', JArr [])]),
             cookies := Some (JObj [(''first_party'', JNum 1), (''third_party'', JNum 0)]),
             deletion := Some (JObj [(''can_delete'', JStr ''yes'')]),
             risk := Some (JObj [(''risk_score'', JNum 40), (''verdict'', JStr ''CAUTION''),
                                 (''reasons'', JArr [])])\<rparr>"]
  by (simp add: run_defs dbl_small_integers)

text \<open>A step whose reply is not accepted takes its fallback.\<close>

lemma useReply_refused:
  "\<not> accepted parse t reply \<Longrightarrow> useReply parse t reply fb = fb"
  by (auto simp: useReply_def accepted_def split: option.splits)

text \<open>
  The report of the AI client is the fallback analysis, or a combination whose
  summarizer result is what \<^verbatim>\<open>runSummarizer\<close> returned.
\<close>

lemma analyze_cases_summarizer:
  "analyzePrivacyPolicy parse cv ai d = generateFallbackAnalysis d
   \<or> (\<exists>s data. runSummarizer parse cv (summarizerReply ai) (privacyPolicyText d) = Inr s
        \<and> summarizer data = Some s
        \<and> combineAnalysisResults cv data = Inr (analyzePrivacyPolicy parse cv ai d))"
proof (cases "analyzePrivacyPolicy parse cv ai d = generateFallbackAnalysis d")
  case True
  then show ?thesis by simp
next
  case False
  then obtain s c dl r where
    s: "runSummarizer parse cv (summarizerReply ai) (privacyPolicyText d) = Inr s"
    and f: "combineAnalysisResults cv
              (noData\<lparr>summarizer := Some s, cookies := Some c, deletion := Some dl, risk := Some r\<rparr>)
            = Inr (analyzePrivacyPolicy parse cv ai d)"
    unfolding analyzePrivacyPolicy_def Let_def
    by (auto split: sum.splits)
  have "summarizer (noData\<lparr>summarizer := Some s, cookies := Some c, deletion := Some dl,
                           risk := Some r\<rparr>) = Some s"
    by simp
  with s f show ?thesis by blast
qed

text \<open>
  The fallback summary is longer than 50 characters, so a combination with the
  summarizer's fallback has at least the confidence of the first bonus, the double 0.7.
\<close>

lemma fallback_summary_confidence:
  assumes "summarizer data = Some s"
    and "generateFallbackResponse cv' ''SUMMARIZER'' (Some noData) = Inr s"
  shows "3152519739159347 / 4503599627370496 \<le> calculateConfidence cv data"
proof -
  from assms(2) have "optp (Some s) ''summary''
      = Some (JStr ''Unable to analyze privacy policy automatically. Manual review recommended.'')"
    by (auto simp: generateFallbackResponse_def optp_def)
  with assms(1) have "truthy (optp (summarizer data) ''summary'')
      \<and> js_gt cv (optp (optp (summarizer data) ''summary'') ''length'') 50"
    by (simp add: optp_def js_gt_def toNumber_def)
  then show ?thesis
    by (simp add: calculateConfidence_def Let_def dbl_literals dadd_sums)
qed

text \<open>
  Claim C7, as amended. The claim says that with zero privacy-policy links, zero
  cookies and empty policy text the analysis takes the fallback path entirely and the
  report's confidence is at most 0.5. What holds for such an input: the summarizer
  step takes its fallback whatever the AI replies, while the other three steps still
  ask the AI. When none of their replies is accepted, every step takes its fallback
  and the report of the AI client has the confidence 0.7999999999999999 (the double
  sum of 0.5, 0.2 for the fallback summary, which is longer than 50 characters, and 0.1
  for the two fallback reasons). Whatever the AI replies, that confidence is either the
  0.3 of \<^verbatim>\<open>generateFallbackAnalysis\<close> or at least the double 0.7, and at most 1. The
  report of the service worker's heuristic has the confidence 0.6.
\<close>

theorem nothing_found_confidence:
  assumes "nothingFound d"
  shows "runSummarizer parse cv reply (privacyPolicyText d)
           = generateFallbackResponse cv ''SUMMARIZER'' (Some noData)
       \<and> (\<not> accepted parse ''COOKIE_ANALYZER'' (cookieReply ai)
            \<and> \<not> accepted parse ''DELETION_ANALYZER'' (deletionReply ai)
            \<and> \<not> accepted parse ''RISK_SCORER'' (riskReply ai) \<longrightarrow>
              runCookieAnalysis parse cv (cookieReply ai) (cookies' d)
                = generateFallbackResponse cv ''COOKIE_ANALYZER''
                    (Some (noData\<lparr>cookieData := map_option cookieDataValue (cookies' d)\<rparr>))
            \<and> runDeletionAnalysis parse cv (deletionReply ai) (privacyPolicyText d)
                = generateFallbackResponse cv ''DELETION_ANALYZER'' (Some noData)
            \<and> (\<forall>combinedData. runRiskAssessment parse cv (riskReply ai) combinedData
                = generateFallbackResponse cv ''RISK_SCORER'' (Some combinedData))
            \<and> confidence (analyzePrivacyPolicy parse cv ai d)
                = 7205759403792793 / 9007199254740992)
       \<and> (confidence (analyzePrivacyPolicy parse cv ai d) = 5404319552844595 / 18014398509481984
            \<or> (3152519739159347 / 4503599627370496 \<le> confidence (analyzePrivacyPolicy parse cv ai d)
                \<and> confidence (analyzePrivacyPolicy parse cv ai d) \<le> 1))
       \<and> confidence (analyzePrivacyPolicy_sw d) = 5404319552844595 / 9007199254740992"
proof -
  from assms have t: "privacyPolicyText d = None \<or> privacyPolicyText d = Some []"
    by (simp add: nothingFound_def)
  then have s: "runSummarizer parse cv r (privacyPolicyText d)
           = generateFallbackResponse cv ''SUMMARIZER'' (Some noData)" for r
    by (auto simp: runSummarizer_def)
  have refused: "runCookieAnalysis parse cv (cookieReply ai) (cookies' d)
                = generateFallbackResponse cv ''COOKIE_ANALYZER''
                    (Some (noData\<lparr>cookieData := map_option cookieDataValue (cookies' d)\<rparr>))
            \<and> runDeletionAnalysis parse cv (deletionReply ai) (privacyPolicyText d)
                = generateFallbackResponse cv ''DELETION_ANALYZER'' (Some noData)
            \<and> (\<forall>combinedData. runRiskAssessment parse cv (riskReply ai) combinedData
                = generateFallbackResponse cv ''RISK_SCORER'' (Some combinedData))
            \<and> confidence (analyzePrivacyPolicy parse cv ai d)
                = 7205759403792793 / 9007199254740992"
    if a: "\<not> accepted parse ''COOKIE_ANALYZER'' (cookieReply ai)"
      "\<not> accepted parse ''DELETION_ANALYZER'' (deletionReply ai)"
      "\<not> accepted parse ''RISK_SCORER'' (riskReply ai)"
  proof -
    have c: "runCookieAnalysis parse cv (cookieReply ai) (cookies' d)
                = generateFallbackResponse cv ''COOKIE_ANALYZER''
                    (Some (noData\<lparr>cookieData := map_option cookieDataValue (cookies' d)\<rparr>))"
      by (simp add: runCookieAnalysis_def useReply_refused [OF a(1)])
    have dl: "runDeletionAnalysis parse cv (deletionReply ai) (privacyPolicyText d)
                = generateFallbackResponse cv ''DELETION_ANALYZER'' (Some noData)"
      by (simp add: runDeletionAnalysis_def useReply_refused [OF a(2)])
    have r: "runRiskAssessment parse cv (riskReply ai) combinedData
                = generateFallbackResponse cv ''RISK_SCORER'' (Some combinedData)" for combinedData
      by (simp add: runRiskAssessment_def useReply_refused [OF a(3)])
    from assms have counts: "cookies' d = None
        \<or> (\<exists>c. cookies' d = Some c
              \<and> (cookieCount c = None \<or> cookieCount c = Some 0)
              \<and> (thirdPartyCookies c = None \<or> thirdPartyCookies c = Some 0))"
      by (auto simp: nothingFound_def or0_def split: option.splits if_splits)
    have "confidence (analyzePrivacyPolicy parse cv ai d) = 7205759403792793 / 9007199254740992"
      unfolding analyzePrivacyPolicy_def s c dl r
      using counts
      by (auto simp: generateFallbackResponse_def combineAnalysisResults_def cookieSummary_def
            extractDataUseFromSummary_def calculateConfidence_def optp_def nullish_def
            js_gt_def js_add_gt_def js_sub_def jsub_def js_numeric_def toNumber_def orZero_def
            cookieDataValue_def noData_def Let_def round_double_small dbl_zero dbl_literals
            dadd_sums)
    with c dl r show ?thesis by simp
  qed
  have general: "confidence (analyzePrivacyPolicy parse cv ai d) = 5404319552844595 / 18014398509481984
            \<or> (3152519739159347 / 4503599627370496 \<le> confidence (analyzePrivacyPolicy parse cv ai d)
                \<and> confidence (analyzePrivacyPolicy parse cv ai d) \<le> 1)"
    using analyze_cases_summarizer [of parse cv ai d]
  proof
    assume "analyzePrivacyPolicy parse cv ai d = generateFallbackAnalysis d"
    then have "confidence (analyzePrivacyPolicy parse cv ai d) = 5404319552844595 / 18014398509481984"
      by (simp add: generateFallbackAnalysis_def Let_def dbl_literals)
    then show ?thesis by simp
  next
    assume "\<exists>s data. runSummarizer parse cv (summarizerReply ai) (privacyPolicyText d) = Inr s
        \<and> summarizer data = Some s
        \<and> combineAnalysisResults cv data = Inr (analyzePrivacyPolicy parse cv ai d)"
    then obtain s' data where
      rs: "runSummarizer parse cv (summarizerReply ai) (privacyPolicyText d) = Inr s'"
      and sd: "summarizer data = Some s'"
      and cb: "combineAnalysisResults cv data = Inr (analyzePrivacyPolicy parse cv ai d)"
      by blast
    from rs s have "generateFallbackResponse cv ''SUMMARIZER'' (Some noData) = Inr s'"
      by simp
    from fallback_summary_confidence [OF sd this]
    have "3152519739159347 / 4503599627370496 \<le> calculateConfidence cv data" .
    moreover from combine_fields [OF cb]
    have "confidence (analyzePrivacyPolicy parse cv ai d) = calculateConfidence cv data"
      by simp
    moreover have "calculateConfidence cv data \<le> 1"
      using confidenceValues_bounds [OF calculateConfidence_values [of cv data]] by simp
    ultimately show ?thesis by simp
  qed
  have sw: "confidence (analyzePrivacyPolicy_sw d) = 5404319552844595 / 9007199254740992"
    by (simp add: analyzePrivacyPolicy_sw_def Let_def dbl_literals)
  from s refused general sw show ?thesis by blast
qed

theorem nothing_found_confidence_witness:
  "nothingFound \<lparr>privacyPolicyText = Some [], privacyPolicyLinks = Some [],
         cookies' = Some \<lparr>cookieCount = Some 0, thirdPartyCookies = Some 0\<rparr>,
         cookieBannerData = None\<rparr>
   \<and> \<not> accepted (parses_only ''null'' JNull) ''COOKIE_ANALYZER'' (cookieReply noReplies)
   \<and> \<not> accepted (parses_only ''null'' JNull) ''DELETION_ANALYZER'' (deletionReply noReplies)
   \<and> \<not> accepted (parses_only ''null'' JNull) ''RISK_SCORER'' (riskReply noReplies)
   \<and> confidence (analyzePrivacyPolicy (parses_only ''null'' JNull) nan_coercion noReplies
        \<lparr>privacyPolicyText = Some [], privacyPolicyLinks = Some [],
         cookies' = Some \<lparr>cookieCount = Some 0, thirdPartyCookies = Some 0\<rparr>,
         cookieBannerData = None\<rparr>) = 7205759403792793 / 9007199254740992"
proof -
  let ?d = "\<lparr>privacyPolicyText = Some [], privacyPolicyLinks = Some [],
         cookies' = Some \<lparr>cookieCount = Some 0, thirdPartyCookies = Some 0\<rparr>,
         cookieBannerData = None\<rparr>"
  have n: "nothingFound ?d"
    by (simp add: nothingFound_def or0_def)
  have a: "\<not> accepted (parses_only ''null'' JNull) ''COOKIE_ANALYZER'' (cookieReply noReplies)"
    "\<not> accepted (parses_only ''null'' JNull) ''DELETION_ANALYZER'' (deletionReply noReplies)"
    "\<not> accepted (parses_only ''null'' JNull) ''RISK_SCORER'' (riskReply noReplies)"
    by (simp_all add: accepted_def noReplies_def)
  from nothing_found_confidence [OF n, of "parses_only ''null'' JNull" nan_coercion None noReplies] a
  have "confidence (analyzePrivacyPolicy (parses_only ''null'' JNull) nan_coercion noReplies ?d)
      = 7205759403792793 / 9007199254740992"
    by blast
  with n a show ?thesis by blast
qed

text \<open>
  Claim C7 as stated fails: for the input of scenario 1 and no AI reply, the
  confidence of neither report is at most 0.5.
\<close>

theorem nothing_found_confidence_counterexample:
  "\<not> confidence (analyzePrivacyPolicy (parses_only ''null'' JNull) nan_coercion noReplies
        \<lparr>privacyPolicyText = Some [], privacyPolicyLinks = Some [],
         cookies' = Some \<lparr>cookieCount = Some 0, thirdPartyCookies = Some 0\<rparr>,
         cookieBannerData = None\<rparr>) \<le> 0.5
   \<and> \<not> confidence (analyzePrivacyPolicy_sw
        \<lparr>privacyPolicyText = Some [], privacyPolicyLinks = Some [],
         cookies' = Some \<lparr>cookieCount = Some 0, thirdPartyCookies = Some 0\<rparr>,
         cookieBannerData = None\<rparr>) \<le> 0.5"
  by (simp add: run_defs analyzePrivacyPolicy_sw_def)

text \<open>
  With the same input an accepted deletion reply raises the confidence of the AI
  client's report to the double 0.8999999999999999.
\<close>

lemma nothing_found_deletion_reply:
  "confidence (analyzePrivacyPolicy (parses_only ''{\"can_delete\":\"no\"}''
                   (JObj [(''can_delete'', JStr ''no'')])) nan_coercion
        (noReplies\<lparr>deletionReply := Some ''{\"can_delete\":\"no\"}''\<rparr>)
        \<lparr>privacyPolicyText = Some [], privacyPolicyLinks = Some [],
         cookies' = Some \<lparr>cookieCount = Some 0, thirdPartyCookies = Some 0\<rparr>,
         cookieBannerData = None\<rparr>) = 2026619832316723 / 2251799813685248"
  by (simp add: run_defs)

section \<open>Unrecognised template names\<close>

text \<open>
  Claim C10. For a template name that is not one of the four, the validator accepts
  every response that parses (lemma \<open>validateResponse_default\<close>), and
  \<^verbatim>\<open>formatPrompt\<close> is to throw the unknown-template error. It does so for a name
  that the template table lacks (lemma \<open>formatPrompt_absent\<close>), but not for a name
  that the table inherits from its prototype: for \<^verbatim>\<open>constructor\<close> the guard passes,
  and the call throws a TypeError at the first substitution, or returns a prompt that
  is \<^verbatim>\<open>undefined\<close> when there are no variables.
\<close>

theorem formatPrompt_inherited_name:
  "formatPrompt tpl render replaceAll ''constructor'' ((k, v) # vs) = Inl TypeError
   \<and> formatPrompt tpl render replaceAll ''constructor'' []
       = Inr \<lparr>prompt = None, fmaxTokens = 500, fname = Some ''Object''\<rparr>
   \<and> validateResponse (parses_only ''{}'' (JObj [])) ''constructor'' ''{}''"
  by (simp add: formatPrompt_def PROMPT_TEMPLATES_def validateResponse_def validateParsed_def
        parses_only_def)

section \<open>Cookie categories\<close>

lemma categoryOf_spec: "categoryOf n = spec_category n"
  by (simp add: categoryOf_def spec_category_def matches_def patterns_def)

lemma categoryOf_six: "categoryOf n \<in> set sixCategories"
  by (simp add: categoryOf_spec spec_category_def sixCategories_def)

lemma bucket_push:
  assumes "k \<in> set sixCategories" "k' \<in> set sixCategories"
  shows "bucket k (push k' e cats) = bucket k cats @ (if k = k' then [e] else [])"
  using assms by (auto simp: sixCategories_def bucket_def push_def)

text \<open>The loop over the cookies appends each cookie to the bucket of its category.\<close>

lemma bucket_foldl:
  assumes "k \<in> set sixCategories"
  shows "bucket k (foldl (\<lambda>cats c. push (categoryOf (name c)) (entry (categoryOf (name c)) c) cats) acc cs)
         = bucket k acc @ map (entry k) (filter (\<lambda>c. categoryOf (name c) = k) cs)"
proof (induction cs arbitrary: acc)
  case Nil
  then show ?case by simp
next
  case (Cons c cs)
  show ?case
    by (simp add: Cons.IH bucket_push [OF assms categoryOf_six])
qed

lemma bucket_categorize:
  assumes "k \<in> set sixCategories"
  shows "bucket k (categorizeCookies cs) = map (entry k) (filter (\<lambda>c. categoryOf (name c) = k) cs)"
  unfolding categorizeCookies_def bucket_foldl [OF assms]
  using assms by (auto simp: noCategories_def bucket_def sixCategories_def)

lemma indicator_sum:
  "distinct ks \<Longrightarrow> a \<in> set ks \<Longrightarrow> (\<Sum>k\<leftarrow>ks. (if a = k then 1 else 0 :: nat)) = 1"
proof (induction ks)
  case Nil
  then show ?case by simp
next
  case (Cons k ks)
  show ?case
  proof (cases "a = k")
    case True
    with Cons.prems have "a \<notin> set ks" by simp
    then have "(\<Sum>k\<leftarrow>ks. (if a = k then 1 else 0 :: nat)) = 0"
      by (induction ks) auto
    with True show ?thesis by simp
  next
    case False
    with Cons show ?thesis by simp
  qed
qed

text \<open>Sorting a list into classes by a key loses and repeats nothing.\<close>

lemma count_split:
  "distinct ks \<Longrightarrow> (\<forall>x \<in> set xs. f x \<in> set ks) \<Longrightarrow>
   (\<Sum>k\<leftarrow>ks. length (filter (\<lambda>x. f x = k) xs)) = length xs"
proof (induction xs)
  case Nil
  then show ?case by simp
next
  case (Cons x xs)
  then have "(\<Sum>k\<leftarrow>ks. length (filter (\<lambda>y. f y = k) (x # xs)))
        = (\<Sum>k\<leftarrow>ks. (if f x = k then 1 else 0) + length (filter (\<lambda>y. f y = k) xs))"
    by (intro arg_cong [where f = sum_list] map_cong) auto
  also have "\<dots> = (\<Sum>k\<leftarrow>ks. (if f x = k then 1 else 0))
                   + (\<Sum>k\<leftarrow>ks. length (filter (\<lambda>y. f y = k) xs))"
    by (simp add: sum_list_addf)
  also have "(\<Sum>k\<leftarrow>ks. (if f x = k then 1 else 0 :: nat)) = 1"
    using Cons.prems by (simp add: indicator_sum)
  finally show ?case using Cons by simp
qed

text \<open>
  Claim C4. Each cookie gets exactly one of the six categories, found by trying the
  five pattern groups in the order essential, analytics, advertising, preferences,
  social; the first group that matches wins and a name that none matches is unknown.
  So a name that matches an essential pattern is essential, whatever else it matches.
  In terms of the result of \<^verbatim>\<open>categorizeCookies\<close>: the bucket of a category holds the
  cookies of that category, in their order, and the six buckets together hold as many
  entries as there are cookies.
\<close>

theorem cookie_categories:
  "categoryOf n = spec_category n
   \<and> categoryOf n \<in> set sixCategories
   \<and> (matches ''essential'' n \<longrightarrow> categoryOf n = ''essential'')
   \<and> (\<forall>k \<in> set sixCategories.
         bucket k (categorizeCookies cs) = map (entry k) (filter (\<lambda>c. categoryOf (name c) = k) cs))
   \<and> (\<Sum>k\<leftarrow>sixCategories. length (bucket k (categorizeCookies cs))) = length cs"
proof -
  have "(\<Sum>k\<leftarrow>sixCategories. length (bucket k (categorizeCookies cs)))
      = (\<Sum>k\<leftarrow>sixCategories. length (filter (\<lambda>c. categoryOf (name c) = k) cs))"
    by (intro arg_cong [where f = sum_list] map_cong) (simp_all add: bucket_categorize)
  also have "\<dots> = length cs"
    by (rule count_split) (simp_all add: categoryOf_six, simp add: sixCategories_def)
  finally show ?thesis
    using categoryOf_spec categoryOf_six bucket_categorize
    by (simp add: spec_category_def)
qed

text \<open>
  Three cookies: one whose name starts with an essential word and contains \<open>ad\<close>,
  one that matches an analytics pattern (\<open>google\<close>) and an advertising pattern
  (\<open>googleads\<close>) and goes to analytics, and one that matches nothing.
\<close>

theorem cookie_categories_witness:
  "matches ''essential'' ''Session_ad''
   \<and> categoryOf ''Session_ad'' = ''essential''
   \<and> ''analytics'' \<in> set sixCategories
   \<and> bucket ''analytics''
        (categorizeCookies [\<lparr>name = ''Session_ad'', domain = ''example.com'', isThirdParty = False\<rparr>,
                            \<lparr>name = ''googleads_7'', domain = ''.ads.example'', isThirdParty = True\<rparr>,
                            \<lparr>name = ''xyz'', domain = ''example.com'', isThirdParty = False\<rparr>])
      = [\<lparr>name = ''googleads_7'', domain = ''.ads.example'', isThirdParty = True, type' = ''analytics''\<rparr>]"
proof -
  let ?cs = "[\<lparr>name = ''Session_ad'', domain = ''example.com'', isThirdParty = False\<rparr>,
              \<lparr>name = ''googleads_7'', domain = ''.ads.example'', isThirdParty = True\<rparr>,
              \<lparr>name = ''xyz'', domain = ''example.com'', isThirdParty = False\<rparr>]"
  have l: "lower CHR ''S'' = CHR ''s''" "lower CHR ''e'' = CHR ''e''" "lower CHR ''s'' = CHR ''s''"
    "lower CHR ''i'' = CHR ''i''" "lower CHR ''o'' = CHR ''o''" "lower CHR ''n'' = CHR ''n''"
    "lower CHR ''_'' = CHR ''_''" "lower CHR ''a'' = CHR ''a''" "lower CHR ''d'' = CHR ''d''"
    "lower CHR ''g'' = CHR ''g''" "lower CHR ''l'' = CHR ''l''" "lower CHR ''7'' = CHR ''7''"
    "lower CHR ''x'' = CHR ''x''" "lower CHR ''y'' = CHR ''y''" "lower CHR ''z'' = CHR ''z''"
    by (simp_all add: lower_def)
  have m: "matches ''essential'' ''Session_ad''"
    by (simp add: matches_def patterns_def some_test_def test_def l)
  have k: "''analytics'' \<in> set sixCategories"
    by (simp add: sixCategories_def)
  have c: "categoryOf ''Session_ad'' = ''essential''" "categoryOf ''googleads_7'' = ''analytics''"
    "categoryOf ''xyz'' = ''unknown''"
    by (simp_all add: categoryOf_def patterns_def some_test_def test_def l)
  from cookie_categories [of "''Session_ad''" ?cs] k
  have "bucket ''analytics'' (categorizeCookies ?cs)
      = map (entry ''analytics'') (filter (\<lambda>c. categoryOf (name c) = ''analytics'') ?cs)"
    by blast
  then have "bucket ''analytics'' (categorizeCookies ?cs)
      = [\<lparr>name = ''googleads_7'', domain = ''.ads.example'', isThirdParty = True, type' = ''analytics''\<rparr>]"
    by (simp add: c entry_def)
  with m k c(1) show ?thesis by blast
qed

text \<open>
  All patterns are anchored at the start of the name, and no essential word is a prefix
  of an advertising word or the other way round: no name matches both groups.
\<close>

lemma test_same:
  assumes "test a n" "test b n"
  shows "prefix a b \<or> prefix b a"
  using assms unfolding test_def by (rule prefix_same_cases)

lemma no_overlap:
  "list_all (\<lambda>a. list_all (\<lambda>b. \<not> prefix a b \<and> \<not> prefix b a)
       [''_fbp'', ''_fbc'', ''facebook'', ''fb'',
        ''doubleclick'', ''googleads'', ''adsystem'',
        ''ad'', ''marketing'', ''retargeting'', ''conversion''])
     [''session'', ''csrf'', ''auth'', ''login'', ''security'',
      ''consent'', ''necessary'', ''required'']"
  by simp

lemma essential_never_advertising:
  "\<not> (matches ''essential'' n \<and> matches ''advertising'' n)"
proof
  assume "matches ''essential'' n \<and> matches ''advertising'' n"
  then obtain a b where a: "a \<in> set [''session'', ''csrf'', ''auth'', ''login'', ''security'',
                       ''consent'', ''necessary'', ''required'']" "test a n"
    and b: "b \<in> set [''_fbp'', ''_fbc'', ''facebook'', ''fb'',
                       ''doubleclick'', ''googleads'', ''adsystem'',
                       ''ad'', ''marketing'', ''retargeting'', ''conversion'']" "test b n"
    unfolding matches_def patterns_def some_test_def list_ex_iff by auto
  from no_overlap a(1) b(1)
  have "\<not> prefix a b \<and> \<not> prefix b a"
    unfolding list_all_iff by blast
  with test_same [OF a(2) b(2)] show False by blast
qed

section \<open>Third-party cookies\<close>

lemma str_includes_sublist: "str_includes s t = sublist t s"
  by (induction s) (auto simp: sublist_Cons_right)

lemma heuristicThirdParty_names:
  "heuristicThirdParty n
   = (prefix ''_ga'' n \<or> prefix ''_fb'' n \<or> sublist ''doubleclick'' n
      \<or> sublist ''google'' n \<or> sublist ''analytics'' n)"
  unfolding heuristicThirdParty_def startsWith_def str_includes_sublist by (rule refl)

text \<open>
  Claim C5, as amended. The claim says that every cookie is third-party exactly when
  neither its domain (without a leading dot) nor the page's domain is a substring of
  the other. That is the filter of the content script on the cookies that the browser
  API returns, and when the API returns, the number of third-party cookies is the
  number of cookies that the rule selects. When the call of the API throws, the content
  script counts the cookies of \<^verbatim>\<open>document.cookie\<close>, all of which have the page's
  domain, and takes a cookie for third-party exactly when its name starts with
  \<open>_ga\<close> or \<open>_fb\<close> or contains \<open>doubleclick\<close>, \<open>google\<close> or \<open>analytics\<close>; when
  reading \<^verbatim>\<open>document.cookie\<close> throws, it counts none. cookie-extractor.js tests one
  direction only and strips no dot: a cookie of the browser API is third-party, and
  counted as such, exactly when the page's domain is not a substring of the cookie's
  domain, and a cookie of \<^verbatim>\<open>document.cookie\<close> is never counted, so that the count
  is the number of cookies of the browser API whose domain does not contain the page's.
\<close>

theorem third_party_rule:
  "isThirdParty_cs currentDomain c = spec_thirdParty currentDomain (domain c)
   \<and> thirdPartyCookies_cs (extractCookieData_cs currentDomain (Some documentNames) (Some allCookies))
     = length (filter (\<lambda>c. spec_thirdParty currentDomain (domain c)) allCookies)
   \<and> thirdPartyCookies_cs (extractCookieData_cs currentDomain (Some documentNames) None)
     = length (filter (\<lambda>n. prefix ''_ga'' n \<or> prefix ''_fb'' n \<or> sublist ''doubleclick'' n
                             \<or> sublist ''google'' n \<or> sublist ''analytics'' n) documentNames)
   \<and> thirdPartyCookies_cs (extractCookieData_cs currentDomain None api) = 0
   \<and> isThirdParty (fromChrome currentDomain c) = (\<not> sublist currentDomain (domain c))
   \<and> countsThirdParty currentDomain (fromChrome currentDomain c) = (\<not> sublist currentDomain (domain c))
   \<and> \<not> countsThirdParty currentDomain (fromDocument currentDomain n)
   \<and> thirdPartyCount_ce currentDomain documentNames allCookies
     = length (filter (\<lambda>c. \<not> sublist currentDomain (domain c)) allCookies)"
proof -
  have a: "isThirdParty_cs currentDomain c = spec_thirdParty currentDomain (domain c)" for c
  proof -
    have d: "cookieDomainOf c
        = (if domain c \<noteq> [] \<and> hd (domain c) = CHR ''.'' then tl (domain c) else domain c)"
      by (cases "domain c") (auto simp: cookieDomainOf_def startsWith_def)
    show ?thesis
      unfolding isThirdParty_cs_def spec_thirdParty_def Let_def d str_includes_sublist by simp
  qed
  have api: "thirdPartyCookies_cs (extractCookieData_cs currentDomain (Some documentNames) (Some allCookies))
     = length (filter (\<lambda>c. spec_thirdParty currentDomain (domain c)) allCookies)"
  proof -
    have "isThirdParty_cs currentDomain = (\<lambda>c. spec_thirdParty currentDomain (domain c))"
      by (rule ext) (rule a)
    then show ?thesis by (simp add: extractCookieData_cs_def Let_def)
  qed
  have h: "thirdPartyCookies_cs (extractCookieData_cs currentDomain (Some documentNames) None)
     = length (filter (\<lambda>n. prefix ''_ga'' n \<or> prefix ''_fb'' n \<or> sublist ''doubleclick'' n
                             \<or> sublist ''google'' n \<or> sublist ''analytics'' n) documentNames)"
  proof -
    have "heuristicThirdParty
        = (\<lambda>n. prefix ''_ga'' n \<or> prefix ''_fb'' n \<or> sublist ''doubleclick'' n
                 \<or> sublist ''google'' n \<or> sublist ''analytics'' n)"
      by (rule ext) (rule heuristicThirdParty_names)
    then show ?thesis by (simp add: extractCookieData_cs_def Let_def)
  qed
  have z: "thirdPartyCookies_cs (extractCookieData_cs currentDomain None api) = 0"
    by (simp add: extractCookieData_cs_def)
  have n: "filter (countsThirdParty currentDomain) (map (fromDocument currentDomain) documentNames) = []"
    by (induction documentNames)
       (simp_all add: countsThirdParty_def fromDocument_def str_includes_sublist)
  have "length (filter (countsThirdParty currentDomain) (map (fromChrome currentDomain) allCookies))
      = length (filter (\<lambda>c. \<not> sublist currentDomain (domain c)) allCookies)"
    by (induction allCookies)
       (simp_all add: countsThirdParty_def fromChrome_def str_includes_sublist)
  with n have ce: "thirdPartyCount_ce currentDomain documentNames allCookies
     = length (filter (\<lambda>c. \<not> sublist currentDomain (domain c)) allCookies)"
    by (simp add: thirdPartyCount_ce_def)
  have p: "isThirdParty (fromChrome currentDomain c) = (\<not> sublist currentDomain (domain c))
   \<and> countsThirdParty currentDomain (fromChrome currentDomain c) = (\<not> sublist currentDomain (domain c))
   \<and> \<not> countsThirdParty currentDomain (fromDocument currentDomain n)"
    by (simp add: fromChrome_def countsThirdParty_def fromDocument_def str_includes_sublist)
  from a [of c] api h z p ce show ?thesis by (intro conjI) (elim conjE, assumption)+
qed

theorem third_party_rule_witness:
  "isThirdParty_cs ''example.com'' \<lparr>name = ''_ga'', domain = ''.tracker.net''\<rparr>
   \<and> spec_thirdParty ''example.com'' ''.tracker.net''
   \<and> thirdPartyCookies_cs (extractCookieData_cs ''example.com'' (Some [''sid''])
        (Some [\<lparr>name = ''_ga'', domain = ''.tracker.net''\<rparr>])) = 1
   \<and> countsThirdParty ''example.com'' (fromChrome ''example.com'' \<lparr>name = ''_ga'', domain = ''.tracker.net''\<rparr>)
   \<and> \<not> countsThirdParty ''example.com'' (fromDocument ''example.com'' ''sid'')"
proof -
  have s: "spec_thirdParty ''example.com'' ''.tracker.net''"
    by (simp add: spec_thirdParty_def str_includes_sublist [symmetric])
  have c: "countsThirdParty ''example.com''
             (fromChrome ''example.com'' \<lparr>name = ''_ga'', domain = ''.tracker.net''\<rparr>)"
    by (simp add: countsThirdParty_def fromChrome_def)
  from third_party_rule [of "''example.com''" "\<lparr>name = ''_ga'', domain = ''.tracker.net''\<rparr>"
      "[''sid'']" "[\<lparr>name = ''_ga'', domain = ''.tracker.net''\<rparr>]" None "''sid''"] s c
  show ?thesis by simp
qed

text \<open>
  Claim C5 as stated fails. In cookie-extractor.js, on the page \<open>shop.example.com\<close>
  a cookie of the domain \<open>example.com\<close> is third-party, although its domain is a
  substring of the page's domain. In the content script, when the call of the browser
  API throws on the page \<open>example.com\<close>, the cookie \<open>_ga\<close> of \<^verbatim>\<open>document.cookie\<close> is
  counted as third-party, although its domain is the page's.
\<close>

theorem third_party_counterexample:
  "isThirdParty (fromChrome ''shop.example.com'' \<lparr>name = ''sid'', domain = ''example.com''\<rparr>)
   \<noteq> spec_thirdParty ''shop.example.com'' ''example.com''
   \<and> thirdPartyCookies_cs (extractCookieData_cs ''example.com'' (Some [''_ga'', ''sid'']) None) = 1
   \<and> domain (fromDocument ''example.com'' ''_ga'') = ''example.com''
   \<and> \<not> spec_thirdParty ''example.com'' ''example.com''"
  by (simp add: fromChrome_def fromDocument_def spec_thirdParty_def extractCookieData_cs_def
        heuristicThirdParty_def startsWith_def str_includes_sublist [symmetric])

section \<open>Link priority\<close>

lemma addTerms_ge: "0 \<le> bonus \<Longrightarrow> score \<le> addTerms bonus terms t u score"
  unfolding addTerms_def
proof (induction terms arbitrary: score)
  case Nil
  then show ?case by simp
next
  case (Cons a terms)
  from Cons.IH [OF Cons.prems, of "if str_includes t a \<or> str_includes u a then score + bonus else score"]
  show ?case using Cons.prems by (auto split: if_splits)
qed

lemma addTerms_Nil: "addTerms bonus [] t u score = score"
  by (simp add: addTerms_def)

lemma addTerms_Cons:
  "addTerms bonus (term # terms) t u score
     = addTerms bonus terms t u
         (score + (if str_includes t term \<or> str_includes u term then bonus else 0))"
  by (simp add: addTerms_def)

text \<open>
  Claim C6, as amended. The claim gives the smallest bonus to a legal or a terms term.
  In the content script the priority of a link is the sum of four independent bonuses:
  10 when the text contains \<open>privacy policy\<close> or the URL contains \<open>privacy-policy\<close>, 5
  when either contains \<open>privacy\<close>, 1 when either contains \<open>legal\<close> (a terms term
  earns nothing), and 3 when the link's host is the page's host. The score of
  \<^verbatim>\<open>getPrivacyRelevanceScore\<close> in privacy-scraper.js is the sum of eight bonuses, one
  for each term of its three lists (10, 5 and 1, with 1 for \<open>legal\<close> and 1 for
  \<open>terms\<close>), without a bonus for the host. Neither score is ever negative.
\<close>

theorem link_priority:
  "priority linkText absoluteUrl linkDomain currentDomain
     = (if str_includes linkText ''privacy policy'' \<or> str_includes absoluteUrl ''privacy-policy''
        then 10 else 0)
     + (if str_includes linkText ''privacy'' \<or> str_includes absoluteUrl ''privacy'' then 5 else 0)
     + (if str_includes linkText ''legal'' \<or> str_includes absoluteUrl ''legal'' then 1 else 0)
     + (if linkDomain = currentDomain then 3 else 0)
   \<and> 0 \<le> priority linkText absoluteUrl linkDomain currentDomain
   \<and> getPrivacyRelevanceScore linkText absoluteUrl
     = (if str_includes linkText ''privacy policy'' \<or> str_includes absoluteUrl ''privacy policy''
        then 10 else 0)
     + (if str_includes linkText ''privacy-policy'' \<or> str_includes absoluteUrl ''privacy-policy''
        then 10 else 0)
     + (if str_includes linkText ''data protection'' \<or> str_includes absoluteUrl ''data protection''
        then 10 else 0)
     + (if str_includes linkText ''privacy'' \<or> str_includes absoluteUrl ''privacy'' then 5 else 0)
     + (if str_includes linkText ''cookie'' \<or> str_includes absoluteUrl ''cookie'' then 5 else 0)
     + (if str_includes linkText ''data'' \<or> str_includes absoluteUrl ''data'' then 5 else 0)
     + (if str_includes linkText ''legal'' \<or> str_includes absoluteUrl ''legal'' then 1 else 0)
     + (if str_includes linkText ''terms'' \<or> str_includes absoluteUrl ''terms'' then 1 else 0)
   \<and> 0 \<le> getPrivacyRelevanceScore linkText absoluteUrl"
proof -
  have nonneg: "0 \<le> getPrivacyRelevanceScore linkText absoluteUrl"
    unfolding getPrivacyRelevanceScore_def
    by (meson addTerms_ge order_trans zero_le_numeral zero_le_one order_refl)
  have score: "getPrivacyRelevanceScore linkText absoluteUrl
     = (if str_includes linkText ''privacy policy'' \<or> str_includes absoluteUrl ''privacy policy''
        then 10 else 0)
     + (if str_includes linkText ''privacy-policy'' \<or> str_includes absoluteUrl ''privacy-policy''
        then 10 else 0)
     + (if str_includes linkText ''data protection'' \<or> str_includes absoluteUrl ''data protection''
        then 10 else 0)
     + (if str_includes linkText ''privacy'' \<or> str_includes absoluteUrl ''privacy'' then 5 else 0)
     + (if str_includes linkText ''cookie'' \<or> str_includes absoluteUrl ''cookie'' then 5 else 0)
     + (if str_includes linkText ''data'' \<or> str_includes absoluteUrl ''data'' then 5 else 0)
     + (if str_includes linkText ''legal'' \<or> str_includes absoluteUrl ''legal'' then 1 else 0)
     + (if str_includes linkText ''terms'' \<or> str_includes absoluteUrl ''terms'' then 1 else 0)"
    by (simp only: getPrivacyRelevanceScore_def addTerms_Cons addTerms_Nil add_0)
  have prio: "priority linkText absoluteUrl linkDomain currentDomain
     = (if str_includes linkText ''privacy policy'' \<or> str_includes absoluteUrl ''privacy-policy''
        then 10 else 0)
     + (if str_includes linkText ''privacy'' \<or> str_includes absoluteUrl ''privacy'' then 5 else 0)
     + (if str_includes linkText ''legal'' \<or> str_includes absoluteUrl ''legal'' then 1 else 0)
     + (if linkDomain = currentDomain then 3 else 0)"
    by (simp add: priority_def Let_def)
  have "0 \<le> priority linkText absoluteUrl linkDomain currentDomain"
    by (simp add: priority_def Let_def)
  with prio score nonneg show ?thesis by (intro conjI)
qed

text \<open>
  Claim C6 as stated fails: a link \<open>Terms of Service\<close> to \<open>/terms\<close> on the page's
  own host qualifies by its URL and has the priority 3, not 4.
\<close>

theorem link_priority_counterexample:
  "urlMatches ''/terms'' ''/terms''
   \<and> priority ''terms of service'' ''https://example.com/terms'' ''example.com'' ''example.com''
     \<noteq> spec_priority ''terms of service'' ''https://example.com/terms'' ''example.com'' ''example.com''"
  by (simp add: urlMatches_def urlPatterns_def startsWith_def priority_def spec_priority_def Let_def)

end
